theory Spec2Isabelle
  imports Complex_Main "HOL-Library.Product_Lexorder"
begin

section \<open>Data model\<close>

text \<open>
  The three revisions of the recommendation workflow (the command-line script v6.4 and the
  HTTP services v7.0 and v7.1) are embedded side by side; a function that exists in more
  than one revision carries the revision as a suffix.

  Numbers: similarity scores and vector components are Python floats. The code embedded
  here only compares, sorts and copies scores and hands vectors to the index unchanged,
  all of which is exact on floats, so the order of \<^typ>\<open>rat\<close> stands for the order of
  the floats, and the literal \<open>0.7\<close> is read as the decimal it denotes. Arithmetic on
  floats is not embedded: the averaging of v6.4 (\<open>np.mean\<close> in float64, with its rounding
  and overflow) is left out, and the aggregated vector enters as the field
  \<open>user_vector_agg\<close> of the state that \<open>agent_1_node\<close> returns.
\<close>

type_synonym vector = "rat list"

text \<open>The Pydantic model \<open>Recommendation\<close> and the candidate dictionaries built during
  collection, which carry the index of the interest vector they come from in addition.\<close>

record recommendation =
  url :: string
  product :: string
  score :: rat

record candidate = recommendation +
  vector_idx :: int

text \<open>A document of the advertisement collection as a similarity query returns it
  (projection \<open>product\<close>, \<open>video_link\<close>, with \<open>$similarity\<close>); every key may be absent.\<close>

record ad_doc =
  ad_product :: "string option"
  video_link :: "string option"
  similarity :: "rat option"

text \<open>A document of the user-interest collection.\<close>

record entry =
  InterestName :: "string option"
  InterestDescription :: "string option"
  entry_vector :: "vector option"

text \<open>The dictionary \<open>user_interests\<close>: each key holds the set of values that the source
  joins with a comma (the order of the join follows the hash order of a Python set and is
  not modelled).\<close>

type_synonym interests = "(string \<times> string set) list"

type_synonym interest = "vector \<times> string \<times> string"

text \<open>The exceptions that the code raises or lets through. \<open>ClientError\<close> is any exception
  raised by the database client.\<close>

datatype exn =
    HTTPException nat string
  | ValueError string
  | IndexError string
  | NameError string
  | ClientError string

fun str_exn :: "exn \<Rightarrow> string" where
  "str_exn (HTTPException c d) = d"
| "str_exn (ValueError m) = m"
| "str_exn (IndexError m) = m"
| "str_exn (NameError m) = m"
| "str_exn (ClientError m) = m"

text \<open>
  The two collections are injected: \<open>store user_id\<close> is the outcome of the query for the
  interest documents of a user, and \<open>index n v\<close> is the outcome of the \<open>n\<close>-th similarity
  query of a run (counted from 0), asked for the neighbours of \<open>v\<close> in rank order.
  \<open>Inl m\<close> means that the client raised an exception with message \<open>m\<close>.
\<close>

type_synonym interest_store = "string \<Rightarrow> string + entry list"
type_synonym ad_index = "nat \<Rightarrow> vector \<Rightarrow> string + ad_doc list"

text \<open>The workflow state of v7.1 (\<open>WorkflowState\<close>); v6.4 adds the fields of the
  aggregation approach.\<close>

record workflow_state =
  customer_id :: string
  user_interests :: interests
  user_vectors_with_interests :: "interest list"
  ad_url :: string
  product_st :: string
  similarity_score :: rat
  play_ad :: bool
  top_recommendations :: "recommendation list"

record workflow_state_v64 = workflow_state +
  user_vectors :: "vector list"
  user_vector_agg :: vector
  ad_url_agg :: string
  product_agg :: string
  similarity_score_agg :: rat
  play_ad_agg :: bool
  top_recommendations_agg :: "recommendation list"

section \<open>Threshold validator (\<open>agent_3_node\<close>)\<close>

definition SIMILARITY_THRESHOLD :: rat where
  "SIMILARITY_THRESHOLD = 7 / 10"

definition DEFAULT_AD_URL :: string where
  "DEFAULT_AD_URL = ''https://www.youtube.com/watch?v=default_ad&autoplay=1&mute=1''"

definition DEFAULT_PRODUCT :: string where
  "DEFAULT_PRODUCT = ''Generic Product''"

definition agent_3_node_v71 :: "workflow_state \<Rightarrow> workflow_state" where
  "agent_3_node_v71 state =
     (if similarity_score state \<ge> SIMILARITY_THRESHOLD
      then state\<lparr>play_ad := True\<rparr>
      else state\<lparr>ad_url := DEFAULT_AD_URL, product_st := DEFAULT_PRODUCT,
                 similarity_score := 0, top_recommendations := [],
                 play_ad := False\<rparr>)"

definition agent_3_node_v64 :: "workflow_state_v64 \<Rightarrow> workflow_state_v64" where
  "agent_3_node_v64 state =
     (let (play, state1) =
            (if similarity_score state \<ge> SIMILARITY_THRESHOLD then (True, state)
             else (False, state\<lparr>ad_url := DEFAULT_AD_URL, product_st := DEFAULT_PRODUCT\<rparr>));
          (play_agg, state2) =
            (if similarity_score_agg state1 \<ge> SIMILARITY_THRESHOLD then (True, state1)
             else (False, state1\<lparr>ad_url_agg := DEFAULT_AD_URL,
                                 product_agg := DEFAULT_PRODUCT\<rparr>))
      in state2\<lparr>play_ad := play, play_ad_agg := play_agg\<rparr>)"

section \<open>Error handler (\<open>error_handler_node\<close>)\<close>

definition DEFAULT_VIDEO_URL :: string where
  "DEFAULT_VIDEO_URL = ''https://www.youtube.com/watch?v=default_video&autoplay=1&mute=1''"

definition error_handler_node_v71 :: "workflow_state \<Rightarrow> workflow_state" where
  "error_handler_node_v71 state =
     \<lparr>customer_id = customer_id state,
      user_interests = user_interests state,
      user_vectors_with_interests = user_vectors_with_interests state,
      ad_url = DEFAULT_VIDEO_URL, product_st = '''', similarity_score = 0,
      play_ad = False, top_recommendations = []\<rparr>"

definition error_handler_node_v64 :: "workflow_state_v64 \<Rightarrow> workflow_state_v64" where
  "error_handler_node_v64 state =
     \<lparr>customer_id = customer_id state,
      user_interests = user_interests state,
      user_vectors_with_interests = user_vectors_with_interests state,
      ad_url = DEFAULT_VIDEO_URL, product_st = '''', similarity_score = 0,
      play_ad = False, top_recommendations = [],
      user_vectors = user_vectors state, user_vector_agg = user_vector_agg state,
      ad_url_agg = DEFAULT_VIDEO_URL, product_agg = '''', similarity_score_agg = 0,
      play_ad_agg = False, top_recommendations_agg = []\<rparr>"

section \<open>Candidate collector\<close>

text \<open>The playback url of an advertisement: the link with the autoplay parameters
  appended, or the empty string when the link is absent or empty.\<close>

definition playback_url :: "ad_doc \<Rightarrow> string" where
  "playback_url ad =
     (case video_link ad of
        None \<Rightarrow> ''''
      | Some l \<Rightarrow> if l = [] then '''' else l @ ''&autoplay=1&mute=1'')"

text \<open>The inner loop over the results of one query (\<open>for ad in top_ads\<close>), with the
  set \<open>seen_products\<close> and the list \<open>vector_recommendations\<close> as loop state.\<close>

fun vector_recommendations_loop ::
  "int \<Rightarrow> ad_doc list \<Rightarrow> string set \<Rightarrow> candidate list \<Rightarrow> candidate list" where
  "vector_recommendations_loop idx [] seen_products recs = recs"
| "vector_recommendations_loop idx (ad # ads) seen_products recs =
     (let p = (case ad_product ad of None \<Rightarrow> '''' | Some q \<Rightarrow> q) in
      if p \<in> seen_products then vector_recommendations_loop idx ads seen_products recs
      else if playback_url ad \<noteq> [] then
        vector_recommendations_loop idx ads (insert p seen_products)
          (recs @ [\<lparr>url = playback_url ad, product = p,
                    score = (case similarity ad of None \<Rightarrow> 0 | Some s \<Rightarrow> s),
                    vector_idx = idx\<rparr>])
      else vector_recommendations_loop idx ads seen_products recs)"

text \<open>The outer loop (\<open>for idx, (user_vector, _, _) in enumerate(...)\<close>), the same code in
  all three revisions. No handler surrounds the query, so an exception of the client
  leaves the loop. The query asks for at most 10 documents (\<open>limit=10\<close>).\<close>

fun collect_loop ::
  "ad_index \<Rightarrow> nat \<Rightarrow> interest list \<Rightarrow> candidate list \<Rightarrow> exn + candidate list" where
  "collect_loop index idx [] all_recommendations = Inr all_recommendations"
| "collect_loop index idx ((user_vector, interest_name, interest_description) # rest)
       all_recommendations =
     (case index idx user_vector of
        Inl m \<Rightarrow> Inl (ClientError m)
      | Inr found \<Rightarrow>
          (let top_ads = take 10 found in
           if top_ads = [] then collect_loop index (Suc idx) rest all_recommendations
           else collect_loop index (Suc idx) rest
                  (all_recommendations @
                     vector_recommendations_loop (int idx) top_ads {} [])))"

definition NO_ADS_FOUND :: string where
  "NO_ADS_FOUND = ''No advertisements found across all vectors (Selection Approach)''"

definition perform_selection_approach :: "ad_index \<Rightarrow> interest list \<Rightarrow> exn + candidate list" where
  "perform_selection_approach index vectors_with_names =
     (case collect_loop index 0 vectors_with_names [] of
        Inl e \<Rightarrow> Inl e
      | Inr all_recommendations \<Rightarrow>
          if all_recommendations = [] then Inl (HTTPException 404 NO_ADS_FOUND)
          else Inr all_recommendations)"

section \<open>Rank-and-dedup selector\<close>

text \<open>Python's \<open>list.sort(key=..., reverse=True)\<close>: the list is reversed, sorted stably in
  ascending order of the key, and reversed again, so that elements with equal keys keep
  their original order.\<close>

definition sort_reverse :: "('a \<Rightarrow> 'k::linorder) \<Rightarrow> 'a list \<Rightarrow> 'a list" where
  "sort_reverse key xs = rev (sort_key key (rev xs))"

text \<open>The sort key of v7.0 and v7.1, \<open>(x["score"], -x["vector_idx"])\<close>, compared as
  Python compares tuples.\<close>

definition score_idx_key :: "candidate \<Rightarrow> rat \<times> int" where
  "score_idx_key x = (score x, - vector_idx x)"

fun dedup_loop :: "candidate list \<Rightarrow> string set \<Rightarrow> candidate list \<Rightarrow> candidate list" where
  "dedup_loop [] seen_products deduplicated = deduplicated"
| "dedup_loop (r # rs) seen_products deduplicated =
     (if product r \<in> seen_products then dedup_loop rs seen_products deduplicated
      else dedup_loop rs (insert (product r) seen_products) (deduplicated @ [r]))"

definition deduplicated_recommendations :: "candidate list \<Rightarrow> candidate list" where
  "deduplicated_recommendations all_recommendations =
     dedup_loop (sort_reverse score_idx_key all_recommendations) {} []"

definition to_recommendation :: "candidate \<Rightarrow> recommendation" where
  "to_recommendation r = \<lparr>url = url r, product = product r, score = score r\<rparr>"

fun shortlist_loop ::
  "candidate list \<Rightarrow> string set \<Rightarrow> recommendation list \<Rightarrow> recommendation list" where
  "shortlist_loop [] seen_urls top_recs = top_recs"
| "shortlist_loop (r # rs) seen_urls top_recs =
     (if url r \<notin> seen_urls \<and> length top_recs < 5
      then shortlist_loop rs (insert (url r) seen_urls) (top_recs @ [to_recommendation r])
      else shortlist_loop rs seen_urls top_recs)"

text \<open>The shortlist built from the deduplicated list: the top match first, then the loop
  over \<open>deduplicated_recommendations[1:]\<close>.\<close>

definition shortlist :: "candidate \<Rightarrow> candidate list \<Rightarrow> recommendation list" where
  "shortlist top_match rest =
     shortlist_loop rest {url top_match} [to_recommendation top_match]"

record selection_approach_response =
  top_ad :: recommendation
  top_recommendations_resp :: "recommendation list"

definition select_top_recommendation ::
  "candidate list \<Rightarrow> exn + selection_approach_response" where
  "select_top_recommendation all_recommendations =
     (case deduplicated_recommendations all_recommendations of
        [] \<Rightarrow> Inl (IndexError ''list index out of range'')
      | top_match # rest \<Rightarrow>
          Inr \<lparr>top_ad = to_recommendation top_match,
               top_recommendations_resp = shortlist top_match rest\<rparr>)"

section \<open>The service v7.0\<close>

definition interests_of :: "entry list \<Rightarrow> interests" where
  "interests_of entries =
     [(''InterestName'',
        set (map (\<lambda>e. case InterestName e of None \<Rightarrow> '''' | Some n \<Rightarrow> n) entries)),
      (''InterestDescription'',
        set (map (\<lambda>e. case InterestDescription e of None \<Rightarrow> '''' | Some d \<Rightarrow> d) entries))]"

definition vector_of :: "entry \<Rightarrow> vector" where
  "vector_of e = (case entry_vector e of None \<Rightarrow> [] | Some v \<Rightarrow> v)"

definition vectors_with_interests :: "entry list \<Rightarrow> interest list" where
  "vectors_with_interests entries =
     map (\<lambda>e. (vector_of e,
               (case InterestName e of None \<Rightarrow> '''' | Some n \<Rightarrow> n),
               (case InterestDescription e of None \<Rightarrow> '''' | Some d \<Rightarrow> d)))
       (filter (\<lambda>e. vector_of e \<noteq> []) entries)"

definition get_user_data ::
  "interest_store \<Rightarrow> string \<Rightarrow> exn + (string \<times> interests \<times> interest list)" where
  "get_user_data store user_id =
     (case store user_id of
        Inl m \<Rightarrow> Inl (ClientError m)
      | Inr entries \<Rightarrow>
          if entries = [] then
            Inl (HTTPException 404 (''No entries found for UserId: '' @ user_id))
          else if vectors_with_interests entries = [] then
            Inl (HTTPException 400 (''No valid $vector found for UserId: '' @ user_id))
          else Inr (user_id, interests_of entries, vectors_with_interests entries))"

record recommendation_response =
  resp_customer_id :: string
  resp_user_interests :: interests
  selection_approach :: selection_approach_response

text \<open>The two \<open>except\<close> clauses of the endpoint, the same in v7.0 and v7.1: an
  \<open>HTTPException\<close> is raised again, every other exception becomes a status 500.\<close>

fun endpoint_except :: "exn + 'a \<Rightarrow> exn + 'a" where
  "endpoint_except (Inr r) = Inr r"
| "endpoint_except (Inl (HTTPException c d)) = Inl (HTTPException c d)"
| "endpoint_except (Inl e) = Inl (HTTPException 500 (''Internal server error: '' @ str_exn e))"

definition get_recommendations_v70 ::
  "interest_store \<Rightarrow> ad_index \<Rightarrow> string \<Rightarrow> exn + recommendation_response" where
  "get_recommendations_v70 store index user_id =
     endpoint_except
       (case get_user_data store user_id of
          Inl e \<Rightarrow> Inl e
        | Inr (customer, interests, vectors_with_names) \<Rightarrow>
            (case perform_selection_approach index vectors_with_names of
               Inl e \<Rightarrow> Inl e
             | Inr all_recommendations \<Rightarrow>
                 (case select_top_recommendation all_recommendations of
                    Inl e \<Rightarrow> Inl e
                  | Inr selection_result \<Rightarrow>
                      Inr \<lparr>resp_customer_id = customer,
                           resp_user_interests = interests,
                           selection_approach = selection_result\<rparr>)))"

section \<open>The service v7.1\<close>

definition agent_1_node_v71 :: "interest_store \<Rightarrow> workflow_state \<Rightarrow> exn + workflow_state" where
  "agent_1_node_v71 store state =
     (if customer_id state = [] then Inl (ValueError ''No CustomerID provided'')
      else case store (customer_id state) of
        Inl m \<Rightarrow> Inl (ClientError m)
      | Inr entries \<Rightarrow>
          if entries = [] then
            Inl (ValueError (''No entries found for UserId: '' @ customer_id state))
          else if vectors_with_interests entries = [] then
            Inl (ValueError (''No valid $vector found for UserId: '' @ customer_id state))
          else
            Inr \<lparr>customer_id = customer_id state,
                 user_interests = interests_of entries,
                 user_vectors_with_interests = vectors_with_interests entries,
                 ad_url = ad_url state, product_st = '''', similarity_score = 0,
                 play_ad = False, top_recommendations = []\<rparr>)"

definition agent_2_node_v71 :: "ad_index \<Rightarrow> workflow_state \<Rightarrow> exn + workflow_state" where
  "agent_2_node_v71 index state =
     (case collect_loop index 0 (user_vectors_with_interests state) [] of
        Inl e \<Rightarrow> Inl e
      | Inr all_recommendations \<Rightarrow>
          if all_recommendations = [] then Inl (ValueError NO_ADS_FOUND)
          else
            (case deduplicated_recommendations all_recommendations of
               [] \<Rightarrow> Inl (IndexError ''list index out of range'')
             | top_match # rest \<Rightarrow>
                 Inr \<lparr>customer_id = customer_id state,
                      user_interests = user_interests state,
                      user_vectors_with_interests = user_vectors_with_interests state,
                      ad_url = url top_match, product_st = product top_match,
                      similarity_score = score top_match, play_ad = False,
                      top_recommendations = shortlist top_match rest\<rparr>))"

text \<open>The compiled graph: \<open>agent_1\<close>, then \<open>agent_2\<close> and \<open>agent_3\<close> when the state holds a
  customer identifier and \<open>error_handler\<close> otherwise. An exception raised in a node leaves
  \<open>graph.invoke\<close>.\<close>

definition graph_invoke_v71 ::
  "interest_store \<Rightarrow> ad_index \<Rightarrow> workflow_state \<Rightarrow> exn + workflow_state" where
  "graph_invoke_v71 store index init =
     (case agent_1_node_v71 store init of
        Inl e \<Rightarrow> Inl e
      | Inr s1 \<Rightarrow>
          if customer_id s1 \<noteq> [] then
            (case agent_2_node_v71 index s1 of
               Inl e \<Rightarrow> Inl e
             | Inr s2 \<Rightarrow> Inr (agent_3_node_v71 s2))
          else Inr (error_handler_node_v71 s1))"

definition initial_state_v71 :: "string \<Rightarrow> workflow_state" where
  "initial_state_v71 user_id =
     \<lparr>customer_id = user_id, user_interests = [], user_vectors_with_interests = [],
      ad_url = '''', product_st = '''', similarity_score = 0, play_ad = False,
      top_recommendations = []\<rparr>"

definition get_recommendations_v71 ::
  "interest_store \<Rightarrow> ad_index \<Rightarrow> string \<Rightarrow> exn + recommendation_response" where
  "get_recommendations_v71 store index user_id =
     endpoint_except
       (case graph_invoke_v71 store index (initial_state_v71 user_id) of
          Inl e \<Rightarrow> Inl e
        | Inr result \<Rightarrow>
            if customer_id result = [] \<or> top_recommendations result = [] then
              Inl (HTTPException 404 ''Failed to generate recommendations'')
            else
              Inr \<lparr>resp_customer_id = customer_id result,
                   resp_user_interests = user_interests result,
                   selection_approach =
                     \<lparr>top_ad = \<lparr>url = ad_url result, product = product_st result,
                                 score = similarity_score result\<rparr>,
                      top_recommendations_resp = top_recommendations result\<rparr>\<rparr>)"

section \<open>The merged candidate pool\<close>

text \<open>The candidates that one query contributes, and the pool that results when every
  vector has been tried: the contributions of all queries, in the order of the vectors.
  \<open>collect_loop\<close> is compared with it below.\<close>

fun query_candidates :: "nat \<Rightarrow> string + ad_doc list \<Rightarrow> candidate list" where
  "query_candidates idx (Inl m) = []"
| "query_candidates idx (Inr found) =
     vector_recommendations_loop (int idx) (take 10 found) {} []"

definition merged_pool :: "ad_index \<Rightarrow> interest list \<Rightarrow> candidate list" where
  "merged_pool index vs =
     concat (map (\<lambda>i. query_candidates i (index i (fst (vs ! i)))) [0..<length vs])"

definition query_raises :: "ad_index \<Rightarrow> interest list \<Rightarrow> nat \<Rightarrow> bool" where
  "query_raises index vs i = isl (index i (fst (vs ! i)))"

section \<open>The command-line script v6.4\<close>

text \<open>The dictionary that \<open>agent_2_node\<close> of v6.4 returns from its two early exits and from
  its \<open>except\<close> clause.\<close>

definition no_result_v64 :: "workflow_state_v64 \<Rightarrow> workflow_state_v64" where
  "no_result_v64 state =
     \<lparr>customer_id = customer_id state,
      user_interests = user_interests state,
      user_vectors_with_interests = user_vectors_with_interests state,
      ad_url = '''', product_st = '''', similarity_score = 0,
      play_ad = False, top_recommendations = [],
      user_vectors = user_vectors state, user_vector_agg = user_vector_agg state,
      ad_url_agg = '''', product_agg = '''', similarity_score_agg = 0,
      play_ad_agg = False, top_recommendations_agg = []\<rparr>"

text \<open>The selection approach of v6.4 sorts by the score alone, before and after the
  deduplication.\<close>

definition deduplicated_recommendations_v64 :: "candidate list \<Rightarrow> candidate list" where
  "deduplicated_recommendations_v64 all_recommendations =
     sort_reverse score (dedup_loop (sort_reverse score all_recommendations) {} [])"

text \<open>The selection approach after the collection: \<open>None\<close> when nothing was collected,
  in which case \<open>top_match\<close> stays unbound.\<close>

definition selection_v64 ::
  "candidate list \<Rightarrow> exn + (candidate \<times> recommendation list) option" where
  "selection_v64 all_recommendations =
     (if all_recommendations = [] then Inr None
      else case deduplicated_recommendations_v64 all_recommendations of
        [] \<Rightarrow> Inl (IndexError ''list index out of range'')
      | top_match # rest \<Rightarrow> Inr (Some (top_match, shortlist top_match rest)))"

text \<open>The aggregation approach: one query with the aggregated vector, the query that
  follows those of the selection approach. It yields \<open>ad_url_agg\<close>, \<open>product_agg\<close>,
  \<open>similarity_score_agg\<close> and \<open>top_recommendations_agg\<close>.\<close>

definition aggregation_v64 ::
  "ad_index \<Rightarrow> nat \<Rightarrow> vector \<Rightarrow> exn + (string \<times> string \<times> rat \<times> recommendation list)" where
  "aggregation_v64 index n agg =
     (if agg = [] then Inr ('''', '''', 0, [])
      else case index n agg of
        Inl m \<Rightarrow> Inl (ClientError m)
      | Inr found \<Rightarrow>
          (let top_ads_agg = take 10 found in
           if top_ads_agg = [] then Inr ('''', '''', 0, [])
           else
             (let agg_recommendations = vector_recommendations_loop (- 1) top_ads_agg {} [] in
              if agg_recommendations = [] then Inr ('''', '''', 0, [])
              else case sort_reverse score agg_recommendations of
                [] \<Rightarrow> Inl (IndexError ''list index out of range'')
              | top_match_agg # rest \<Rightarrow>
                  Inr (url top_match_agg, product top_match_agg, score top_match_agg,
                       shortlist_loop (top_match_agg # rest) {} []))))"

text \<open>The body of the \<open>try\<close> statement of \<open>agent_2_node\<close>. \<open>connect\<close> is the outcome of
  opening the collection and listing it for the log (\<open>Some m\<close>: the client raised).
  The final log line and the returned dictionary read \<open>top_match\<close>, which is unbound
  when the selection approach collected nothing.\<close>

definition agent_2_try_v64 ::
  "string option \<Rightarrow> ad_index \<Rightarrow> workflow_state_v64 \<Rightarrow> exn + workflow_state_v64" where
  "agent_2_try_v64 connect index state =
     (case connect of
        Some m \<Rightarrow> Inl (ClientError m)
      | None \<Rightarrow>
     (case collect_loop index 0 (user_vectors_with_interests state) [] of
        Inl e \<Rightarrow> Inl e
      | Inr all_recommendations \<Rightarrow>
     (case selection_v64 all_recommendations of
        Inl e \<Rightarrow> Inl e
      | Inr selection \<Rightarrow>
     (case aggregation_v64 index (length (user_vectors_with_interests state))
             (user_vector_agg state) of
        Inl e \<Rightarrow> Inl e
      | Inr (url_agg, prod_agg, score_agg, top_agg) \<Rightarrow>
     (case selection of
        None \<Rightarrow> Inl (NameError ''top_match'')
      | Some (top_match, top_recs) \<Rightarrow>
          Inr \<lparr>customer_id = customer_id state,
               user_interests = user_interests state,
               user_vectors_with_interests = user_vectors_with_interests state,
               ad_url = url top_match, product_st = product top_match,
               similarity_score = score top_match, play_ad = False,
               top_recommendations = top_recs,
               user_vectors = user_vectors state,
               user_vector_agg = user_vector_agg state,
               ad_url_agg = url_agg, product_agg = prod_agg,
               similarity_score_agg = score_agg, play_ad_agg = False,
               top_recommendations_agg = top_agg\<rparr>)))))"

definition agent_2_node_v64 ::
  "string option \<Rightarrow> ad_index \<Rightarrow> workflow_state_v64 \<Rightarrow> workflow_state_v64" where
  "agent_2_node_v64 connect index state =
     (if customer_id state = [] then no_result_v64 state
      else if user_vectors state = [] then no_result_v64 state
      else case agent_2_try_v64 connect index state of
        Inl e \<Rightarrow> no_result_v64 state
      | Inr result \<Rightarrow> result)"

text \<open>The graph of v6.4 from the state that \<open>agent_1_node\<close> returns (that node reads the
  console and draws a random user, and is not modelled beyond its result).\<close>

definition graph_after_agent_1_v64 ::
  "string option \<Rightarrow> ad_index \<Rightarrow> workflow_state_v64 \<Rightarrow> workflow_state_v64" where
  "graph_after_agent_1_v64 connect index s1 =
     (if customer_id s1 \<noteq> [] then agent_3_node_v64 (agent_2_node_v64 connect index s1)
      else error_handler_node_v64 s1)"

text \<open>The state that \<open>agent_1_node\<close> of v6.4 returns when the mode typed at the prompt is
  neither 1 nor 2, from the initial state of \<open>main\<close>.\<close>

definition initial_state_v64 :: workflow_state_v64 where
  "initial_state_v64 =
     \<lparr>customer_id = '''', user_interests = [], user_vectors_with_interests = [],
      ad_url = '''', product_st = '''', similarity_score = 0,
      play_ad = False, top_recommendations = [],
      user_vectors = [], user_vector_agg = [],
      ad_url_agg = '''', product_agg = '''', similarity_score_agg = 0,
      play_ad_agg = False, top_recommendations_agg = []\<rparr>"

definition agent_1_invalid_choice_v64 :: "workflow_state_v64 \<Rightarrow> workflow_state_v64" where
  "agent_1_invalid_choice_v64 state =
     \<lparr>customer_id = '''', user_interests = [], user_vectors_with_interests = [],
      ad_url = ad_url state, product_st = '''', similarity_score = 0,
      play_ad = False, top_recommendations = [],
      user_vectors = [], user_vector_agg = [],
      ad_url_agg = '''', product_agg = '''', similarity_score_agg = 0,
      play_ad_agg = False, top_recommendations_agg = []\<rparr>"

section \<open>Example inputs\<close>

text \<open>An interest store with a customer \<open>u1\<close> who has two interest vectors, a customer
  \<open>u2\<close> whose only record carries no vector, and nobody else.\<close>

definition example_store :: interest_store where
  "example_store user_id =
     (if user_id = ''u1'' then
        Inr [\<lparr>InterestName = Some ''Hiking'', InterestDescription = Some ''Mountain trails'',
              entry_vector = Some [1, 0]\<rparr>,
             \<lparr>InterestName = Some ''Cycling'', InterestDescription = Some ''Road bikes'',
              entry_vector = Some [0, 1]\<rparr>]
      else if user_id = ''u2'' then
        Inr [\<lparr>InterestName = Some ''Chess'', InterestDescription = None,
              entry_vector = None\<rparr>]
      else Inr [])"

definition example_vectors :: "interest list" where
  "example_vectors =
     [([1, 0], ''Hiking'', ''Mountain trails''), ([0, 1], ''Cycling'', ''Road bikes'')]"

definition example_ad :: "string \<Rightarrow> string \<Rightarrow> rat \<Rightarrow> ad_doc" where
  "example_ad p l s = \<lparr>ad_product = Some p, video_link = Some l, similarity = Some s\<rparr>"

text \<open>Indexes: one whose two queries overlap in products and urls, one that finds nothing
  for the first query, one whose best match scores 0.5, one that finds nothing at all, and
  one whose first query raises.\<close>

definition example_index :: ad_index where
  "example_index n v =
     (if n = 0 then
        Inr [example_ad ''Bike'' ''https://ads.example/a'' (85 / 100),
             example_ad ''Tent'' ''https://ads.example/b'' (75 / 100)]
      else
        Inr [example_ad ''Tent'' ''https://ads.example/c'' (75 / 100),
             example_ad ''Bike'' ''https://ads.example/a'' (65 / 100),
             example_ad ''Lamp'' ''https://ads.example/b'' (60 / 100)])"

definition example_index_gap :: ad_index where
  "example_index_gap n v =
     (if n = 0 then Inr []
      else Inr [example_ad ''Bike'' ''https://ads.example/a'' (85 / 100)])"

definition example_index_low :: ad_index where
  "example_index_low n v = Inr [example_ad ''Bike'' ''https://ads.example/a'' (1 / 2)]"

definition example_index_empty :: ad_index where
  "example_index_empty n v = Inr []"

definition example_index_failing :: ad_index where
  "example_index_failing n v =
     (if n = 0 then Inl ''timeout''
      else Inr [example_ad ''Bike'' ''https://ads.example/a'' (85 / 100)])"

definition example_pool :: "candidate list" where
  "example_pool =
     [\<lparr>url = ''https://ads.example/a&autoplay=1&mute=1'', product = ''Bike'',
       score = 85 / 100, vector_idx = 0\<rparr>,
      \<lparr>url = ''https://ads.example/b&autoplay=1&mute=1'', product = ''Tent'',
       score = 75 / 100, vector_idx = 0\<rparr>,
      \<lparr>url = ''https://ads.example/c&autoplay=1&mute=1'', product = ''Tent'',
       score = 75 / 100, vector_idx = 1\<rparr>,
      \<lparr>url = ''https://ads.example/a&autoplay=1&mute=1'', product = ''Bike'',
       score = 65 / 100, vector_idx = 1\<rparr>,
      \<lparr>url = ''https://ads.example/b&autoplay=1&mute=1'', product = ''Lamp'',
       score = 60 / 100, vector_idx = 1\<rparr>]"

text \<open>States as \<open>agent_2_node\<close> hands them to the threshold validator, with the given
  scores.\<close>

definition example_state_v71 :: "rat \<Rightarrow> workflow_state" where
  "example_state_v71 s =
     \<lparr>customer_id = ''u1'', user_interests = [], user_vectors_with_interests = [],
      ad_url = ''https://ads.example/v1&autoplay=1&mute=1'', product_st = ''Bike'',
      similarity_score = s, play_ad = False,
      top_recommendations =
        [\<lparr>url = ''https://ads.example/v1&autoplay=1&mute=1'', product = ''Bike'',
          score = s\<rparr>]\<rparr>"

definition example_state_v64 :: "rat \<Rightarrow> rat \<Rightarrow> workflow_state_v64" where
  "example_state_v64 s a =
     \<lparr>customer_id = ''u1'', user_interests = [], user_vectors_with_interests = [],
      ad_url = ''https://ads.example/v1&autoplay=1&mute=1'', product_st = ''Bike'',
      similarity_score = s, play_ad = False,
      top_recommendations =
        [\<lparr>url = ''https://ads.example/v1&autoplay=1&mute=1'', product = ''Bike'',
          score = s\<rparr>],
      user_vectors = [], user_vector_agg = [],
      ad_url_agg = ''https://ads.example/v2&autoplay=1&mute=1'', product_agg = ''Tent'',
      similarity_score_agg = a, play_ad_agg = False,
      top_recommendations_agg =
        [\<lparr>url = ''https://ads.example/v2&autoplay=1&mute=1'', product = ''Tent'',
          score = a\<rparr>]\<rparr>"

text \<open>The run of customer \<open>u1\<close> against the first index, stage by stage.\<close>

definition example_s1 :: workflow_state where
  "example_s1 =
     \<lparr>customer_id = ''u1'',
      user_interests = [(''InterestName'', {''Hiking'', ''Cycling''}),
                        (''InterestDescription'', {''Mountain trails'', ''Road bikes''})],
      user_vectors_with_interests = example_vectors,
      ad_url = '''', product_st = '''', similarity_score = 0, play_ad = False,
      top_recommendations = []\<rparr>"

definition example_shortlist :: "recommendation list" where
  "example_shortlist =
     [\<lparr>url = ''https://ads.example/a&autoplay=1&mute=1'', product = ''Bike'', score = 85 / 100\<rparr>,
      \<lparr>url = ''https://ads.example/b&autoplay=1&mute=1'', product = ''Tent'', score = 75 / 100\<rparr>]"

definition example_selection :: selection_approach_response where
  "example_selection =
     \<lparr>top_ad = \<lparr>url = ''https://ads.example/a&autoplay=1&mute=1'', product = ''Bike'',
                 score = 85 / 100\<rparr>,
      top_recommendations_resp = example_shortlist\<rparr>"

definition example_s2 :: workflow_state where
  "example_s2 =
     example_s1\<lparr>ad_url := ''https://ads.example/a&autoplay=1&mute=1'', product_st := ''Bike'',
                similarity_score := 85 / 100, top_recommendations := example_shortlist\<rparr>"

text \<open>The same customer in v6.4, and the states that \<open>agent_2_node\<close> returns when the
  best match scores 0.5.\<close>

definition example_s1_v64 :: workflow_state_v64 where
  "example_s1_v64 =
     \<lparr>customer_id = ''u1'',
      user_interests = [(''InterestName'', {''Hiking'', ''Cycling''}),
                        (''InterestDescription'', {''Mountain trails'', ''Road bikes''})],
      user_vectors_with_interests = example_vectors,
      ad_url = '''', product_st = '''', similarity_score = 0, play_ad = False,
      top_recommendations = [],
      user_vectors = [[1, 0], [0, 1]], user_vector_agg = [1 / 2, 1 / 2],
      ad_url_agg = '''', product_agg = '''', similarity_score_agg = 0,
      play_ad_agg = False, top_recommendations_agg = []\<rparr>"

definition example_low_shortlist :: "recommendation list" where
  "example_low_shortlist =
     [\<lparr>url = ''https://ads.example/a&autoplay=1&mute=1'', product = ''Bike'', score = 1 / 2\<rparr>]"

definition example_low_s2 :: workflow_state where
  "example_low_s2 =
     example_s1\<lparr>ad_url := ''https://ads.example/a&autoplay=1&mute=1'', product_st := ''Bike'',
                similarity_score := 1 / 2, top_recommendations := example_low_shortlist\<rparr>"

definition example_low_s2_v64 :: workflow_state_v64 where
  "example_low_s2_v64 =
     example_s1_v64\<lparr>ad_url := ''https://ads.example/a&autoplay=1&mute=1'',
                    product_st := ''Bike'', similarity_score := 1 / 2,
                    top_recommendations := example_low_shortlist,
                    ad_url_agg := ''https://ads.example/a&autoplay=1&mute=1'',
                    product_agg := ''Bike'', similarity_score_agg := 1 / 2,
                    top_recommendations_agg := example_low_shortlist\<rparr>"

section \<open>Properties of the threshold validator\<close>

text \<open>
  Claim C1. The boundary of the threshold validator is inclusive. In v7.1 a state whose
  score is at least 0.7 is returned unchanged with \<open>play_ad\<close> set, and a state whose score
  is below 0.7 gets \<open>play_ad = False\<close> and the fallback url and product. In v6.4 the same
  holds for the selection approach and, independently, for the aggregation approach.
\<close>

theorem threshold_boundary_inclusive:
  "(SIMILARITY_THRESHOLD \<le> similarity_score s \<longrightarrow>
      agent_3_node_v71 s = s\<lparr>play_ad := True\<rparr>) \<and>
   (similarity_score s < SIMILARITY_THRESHOLD \<longrightarrow>
      play_ad (agent_3_node_v71 s) = False \<and>
      ad_url (agent_3_node_v71 s) = DEFAULT_AD_URL \<and>
      product_st (agent_3_node_v71 s) = DEFAULT_PRODUCT) \<and>
   (SIMILARITY_THRESHOLD \<le> similarity_score t \<longrightarrow>
      play_ad (agent_3_node_v64 t) = True \<and>
      ad_url (agent_3_node_v64 t) = ad_url t \<and>
      product_st (agent_3_node_v64 t) = product_st t \<and>
      similarity_score (agent_3_node_v64 t) = similarity_score t \<and>
      top_recommendations (agent_3_node_v64 t) = top_recommendations t) \<and>
   (similarity_score t < SIMILARITY_THRESHOLD \<longrightarrow>
      play_ad (agent_3_node_v64 t) = False \<and>
      ad_url (agent_3_node_v64 t) = DEFAULT_AD_URL \<and>
      product_st (agent_3_node_v64 t) = DEFAULT_PRODUCT) \<and>
   (SIMILARITY_THRESHOLD \<le> similarity_score_agg t \<longrightarrow>
      play_ad_agg (agent_3_node_v64 t) = True \<and>
      ad_url_agg (agent_3_node_v64 t) = ad_url_agg t \<and>
      product_agg (agent_3_node_v64 t) = product_agg t \<and>
      similarity_score_agg (agent_3_node_v64 t) = similarity_score_agg t \<and>
      top_recommendations_agg (agent_3_node_v64 t) = top_recommendations_agg t) \<and>
   (similarity_score_agg t < SIMILARITY_THRESHOLD \<longrightarrow>
      play_ad_agg (agent_3_node_v64 t) = False \<and>
      ad_url_agg (agent_3_node_v64 t) = DEFAULT_AD_URL \<and>
      product_agg (agent_3_node_v64 t) = DEFAULT_PRODUCT)"
  by (simp add: agent_3_node_v71_def agent_3_node_v64_def Let_def)

theorem threshold_boundary_inclusive_witness:
  "SIMILARITY_THRESHOLD \<le> similarity_score (example_state_v71 (7 / 10)) \<and>
   agent_3_node_v71 (example_state_v71 (7 / 10)) = (example_state_v71 (7 / 10))\<lparr>play_ad := True\<rparr> \<and>
   similarity_score (example_state_v71 (6999 / 10000)) < SIMILARITY_THRESHOLD \<and>
   play_ad (agent_3_node_v71 (example_state_v71 (6999 / 10000))) = False \<and>
   ad_url (agent_3_node_v71 (example_state_v71 (6999 / 10000))) = DEFAULT_AD_URL \<and>
   product_st (agent_3_node_v71 (example_state_v71 (6999 / 10000))) = DEFAULT_PRODUCT \<and>
   SIMILARITY_THRESHOLD \<le> similarity_score (example_state_v64 (7 / 10) (7 / 10)) \<and>
   SIMILARITY_THRESHOLD \<le> similarity_score_agg (example_state_v64 (7 / 10) (7 / 10)) \<and>
   play_ad (agent_3_node_v64 (example_state_v64 (7 / 10) (7 / 10))) = True \<and>
   play_ad_agg (agent_3_node_v64 (example_state_v64 (7 / 10) (7 / 10))) = True \<and>
   similarity_score (example_state_v64 (6999 / 10000) (6999 / 10000)) < SIMILARITY_THRESHOLD \<and>
   similarity_score_agg (example_state_v64 (6999 / 10000) (6999 / 10000)) < SIMILARITY_THRESHOLD \<and>
   play_ad (agent_3_node_v64 (example_state_v64 (6999 / 10000) (6999 / 10000))) = False \<and>
   ad_url (agent_3_node_v64 (example_state_v64 (6999 / 10000) (6999 / 10000))) = DEFAULT_AD_URL \<and>
   product_st (agent_3_node_v64 (example_state_v64 (6999 / 10000) (6999 / 10000))) = DEFAULT_PRODUCT \<and>
   play_ad_agg (agent_3_node_v64 (example_state_v64 (6999 / 10000) (6999 / 10000))) = False \<and>
   ad_url_agg (agent_3_node_v64 (example_state_v64 (6999 / 10000) (6999 / 10000))) = DEFAULT_AD_URL \<and>
   product_agg (agent_3_node_v64 (example_state_v64 (6999 / 10000) (6999 / 10000))) = DEFAULT_PRODUCT"
  using threshold_boundary_inclusive [of "example_state_v71 (7 / 10)" "example_state_v64 (7 / 10) (7 / 10)"]
        threshold_boundary_inclusive [of "example_state_v71 (6999 / 10000)" "example_state_v64 (6999 / 10000) (6999 / 10000)"]
  by (simp add: example_state_v71_def example_state_v64_def SIMILARITY_THRESHOLD_def)

section \<open>Sorting and deduplication\<close>

lemma dedup_loop_append:
  "dedup_loop xs seen acc = acc @ dedup_loop xs seen []"
proof (induction xs arbitrary: seen acc)
  case Nil
  show ?case by simp
next
  case (Cons r rs)
  show ?case
  proof (cases "product r \<in> seen")
    case True
    then show ?thesis using Cons.IH [of seen acc] by simp
  next
    case False
    have "dedup_loop (r # rs) seen acc = (acc @ [r]) @ dedup_loop rs (insert (product r) seen) []"
      using False Cons.IH [of "insert (product r) seen" "acc @ [r]"] by simp
    moreover have "dedup_loop (r # rs) seen [] = [r] @ dedup_loop rs (insert (product r) seen) []"
      using False Cons.IH [of "insert (product r) seen" "[r]"] by simp
    ultimately show ?thesis by simp
  qed
qed

lemma dedup_loop_Cons:
  "dedup_loop (r # rs) seen [] =
     (if product r \<in> seen then dedup_loop rs seen []
      else r # dedup_loop rs (insert (product r) seen) [])"
  using dedup_loop_append [of rs "insert (product r) seen" "[r]"] by simp

lemma set_dedup_loop: "set (dedup_loop xs seen []) \<subseteq> set xs"
  by (induction xs arbitrary: seen) (auto simp: dedup_loop_Cons simp del: dedup_loop.simps(2))

lemma products_dedup_loop:
  "product ` set (dedup_loop xs seen []) = product ` set xs - seen"
  by (induction xs arbitrary: seen) (auto simp: dedup_loop_Cons simp del: dedup_loop.simps(2))

lemma distinct_dedup_loop: "distinct (map product (dedup_loop xs seen []))"
proof (induction xs arbitrary: seen)
  case Nil
  show ?case by simp
next
  case (Cons r rs)
  have "product r \<notin> product ` set (dedup_loop rs (insert (product r) seen) [])"
    by (simp add: products_dedup_loop)
  then show ?case using Cons.IH by (simp add: dedup_loop_Cons del: dedup_loop.simps(2))
qed

lemma sorted_wrt_dedup_loop:
  "sorted_wrt P xs \<Longrightarrow> sorted_wrt P (dedup_loop xs seen [])"
proof (induction xs arbitrary: seen)
  case Nil
  show ?case by simp
next
  case (Cons r rs)
  have "set (dedup_loop rs (insert (product r) seen) []) \<subseteq> set rs"
    by (rule set_dedup_loop)
  then show ?case using Cons by (auto simp: dedup_loop_Cons simp del: dedup_loop.simps(2))
qed

lemma dedup_loop_keeps_first:
  "sorted_wrt (\<lambda>a b. key b \<le> key a) xs \<Longrightarrow> r \<in> set (dedup_loop xs seen []) \<Longrightarrow>
   c \<in> set xs \<Longrightarrow> product c = product r \<Longrightarrow> key c \<le> (key r :: 'k :: linorder)"
proof (induction xs arbitrary: seen)
  case Nil
  then show ?case by simp
next
  case (Cons x xs)
  show ?case
  proof (cases "product x \<in> seen")
    case True
    then have r: "r \<in> set (dedup_loop xs seen [])"
      using Cons.prems(2) by (simp add: dedup_loop_Cons del: dedup_loop.simps(2))
    then have "product r \<in> product ` set xs - seen"
      using products_dedup_loop [of xs seen] by blast
    then have "c \<noteq> x" using True Cons.prems(4) by auto
    then show ?thesis using Cons.IH [OF _ r] Cons.prems by simp
  next
    case False
    then have "r = x \<or> r \<in> set (dedup_loop xs (insert (product x) seen) [])"
      using Cons.prems(2) by (simp add: dedup_loop_Cons del: dedup_loop.simps(2))
    then show ?thesis
    proof
      assume "r = x"
      then show ?thesis using Cons.prems(1,3) by auto
    next
      assume r: "r \<in> set (dedup_loop xs (insert (product x) seen) [])"
      then have "product r \<in> product ` set xs - insert (product x) seen"
        using products_dedup_loop [of xs "insert (product x) seen"] by blast
      then have "c \<noteq> x" using Cons.prems(4) by auto
      then show ?thesis using Cons.IH [OF _ r] Cons.prems by simp
    qed
  qed
qed

lemma dedup_loop_hd:
  "xs \<noteq> [] \<Longrightarrow> dedup_loop xs {} [] \<noteq> [] \<and> hd (dedup_loop xs {} []) = hd xs"
  by (cases xs) (simp_all add: dedup_loop_Cons del: dedup_loop.simps(2))

lemma set_sort_reverse: "set (sort_reverse key xs) = set xs"
  by (simp add: sort_reverse_def)

lemma sorted_sort_reverse: "sorted_wrt (\<lambda>a b. key b \<le> key a) (sort_reverse key xs)"
proof -
  have "sorted (map key (sort_key key (rev xs)))" by (rule sorted_sort_key)
  then have "sorted_wrt (\<lambda>a b. key a \<le> key b) (sort_key key (rev xs))"
    by (simp add: sorted_map)
  then show ?thesis by (simp add: sort_reverse_def sorted_wrt_rev)
qed

lemma sort_reverse_stable:
  "filter (\<lambda>y. key y = k) (sort_reverse key xs) = filter (\<lambda>y. key y = k) xs"
  by (simp add: sort_reverse_def sort_key_stable rev_filter [symmetric])

lemma sort_reverse_Nil: "sort_reverse key xs = [] \<longleftrightarrow> xs = []"
  using set_sort_reverse [of key xs] by (metis set_empty)


lemma shortlist_loop_length:
  "length top_recs \<le> 5 \<Longrightarrow>
   length (shortlist_loop rs seen top_recs) =
     min 5 (length top_recs + card (url ` set rs - seen))"
proof (induction rs arbitrary: seen top_recs)
  case Nil
  then show ?case by simp
next
  case (Cons r rs)
  show ?case
  proof (cases "url r \<in> seen")
    case True
    then have "url ` set (r # rs) - seen = url ` set rs - seen" by auto
    then show ?thesis using True Cons by simp
  next
    case False
    have fin: "finite (url ` set rs - insert (url r) seen)" by simp
    have "url ` set (r # rs) - seen = insert (url r) (url ` set rs - insert (url r) seen)"
      using False by auto
    then have c: "card (url ` set (r # rs) - seen) = Suc (card (url ` set rs - insert (url r) seen))"
      using fin by simp
    show ?thesis
    proof (cases "length top_recs < 5")
      case True
      then have "length (top_recs @ [to_recommendation r]) \<le> 5" by simp
      from Cons.IH [OF this, of "insert (url r) seen"] show ?thesis
        using True False c by simp
    next
      case False
      then have "length top_recs = 5" using Cons.prems by simp
      then show ?thesis using Cons.IH [OF Cons.prems, of seen] by simp
    qed
  qed
qed

lemma shortlist_loop_distinct_url:
  "url ` set top_recs \<subseteq> seen \<Longrightarrow> distinct (map url top_recs) \<Longrightarrow>
   distinct (map url (shortlist_loop rs seen top_recs))"
proof (induction rs arbitrary: seen top_recs)
  case Nil
  then show ?case by simp
next
  case (Cons r rs)
  show ?case
  proof (cases "url r \<notin> seen \<and> length top_recs < 5")
    case True
    have "url ` set (top_recs @ [to_recommendation r]) \<subseteq> insert (url r) seen"
      using Cons.prems(1) by (auto simp: to_recommendation_def)
    moreover have "distinct (map url (top_recs @ [to_recommendation r]))"
      using Cons.prems True by (auto simp: to_recommendation_def)
    ultimately show ?thesis using True Cons.IH by simp
  next
    case False
    then show ?thesis using Cons by auto
  qed
qed

lemma shortlist_loop_distinct_product:
  "distinct (map product top_recs) \<Longrightarrow> distinct (map product rs) \<Longrightarrow>
   product ` set top_recs \<inter> product ` set rs = {} \<Longrightarrow>
   distinct (map product (shortlist_loop rs seen top_recs))"
proof (induction rs arbitrary: seen top_recs)
  case Nil
  then show ?case by simp
next
  case (Cons r rs)
  show ?case
  proof (cases "url r \<notin> seen \<and> length top_recs < 5")
    case True
    have "distinct (map product (top_recs @ [to_recommendation r]))"
      using Cons.prems by (auto simp: to_recommendation_def)
    moreover have "product ` set (top_recs @ [to_recommendation r]) \<inter> product ` set rs = {}"
      using Cons.prems by (auto simp: to_recommendation_def)
    moreover have "distinct (map product rs)" using Cons.prems by simp
    ultimately show ?thesis using True Cons.IH by simp
  next
    case False
    have "product ` set top_recs \<inter> product ` set rs = {}" using Cons.prems by auto
    moreover have "distinct (map product rs)" using Cons.prems by simp
    moreover have "shortlist_loop (r # rs) seen top_recs = shortlist_loop rs seen top_recs"
      using False by auto
    ultimately show ?thesis using Cons.IH Cons.prems(1) by simp
  qed
qed

lemma shortlist_loop_hd:
  "top_recs \<noteq> [] \<Longrightarrow> hd (shortlist_loop rs seen top_recs) = hd top_recs"
  by (induction rs arbitrary: seen top_recs) auto

lemma shortlist_length:
  "length (shortlist t rest) = min 5 (card (url ` set (t # rest)))"
proof -
  have "card (url ` set (t # rest)) = Suc (card (url ` set rest - {url t}))"
    by (simp add: card.insert_remove)
  then show ?thesis
    using shortlist_loop_length [of "[to_recommendation t]" rest "{url t}"]
    by (simp add: shortlist_def)
qed

lemma shortlist_distinct_url: "distinct (map url (shortlist t rest))"
  unfolding shortlist_def
  by (rule shortlist_loop_distinct_url) (simp_all add: to_recommendation_def)

lemma shortlist_distinct_product:
  "distinct (map product (t # rest)) \<Longrightarrow> distinct (map product (shortlist t rest))"
  unfolding shortlist_def
  by (rule shortlist_loop_distinct_product) (auto simp: to_recommendation_def)

lemma shortlist_hd: "hd (shortlist t rest) = to_recommendation t"
  by (simp add: shortlist_def shortlist_loop_hd)

lemma sorted_desc_hd_Max:
  "sorted_wrt (\<lambda>a b. f b \<le> (f a :: 'k :: linorder)) (x # xs) \<Longrightarrow> f x = Max (f ` set (x # xs))"
  by (intro Max_eqI [symmetric]) auto

subsection \<open>The deduplicated list\<close>

lemma deduplicated_subset: "set (deduplicated_recommendations pool) \<subseteq> set pool"
  using set_dedup_loop [of "sort_reverse score_idx_key pool" "{}"]
  by (simp add: deduplicated_recommendations_def set_sort_reverse)

lemma deduplicated_products:
  "product ` set (deduplicated_recommendations pool) = product ` set pool"
  using products_dedup_loop [of "sort_reverse score_idx_key pool" "{}"]
  by (simp add: deduplicated_recommendations_def set_sort_reverse)

lemma deduplicated_distinct: "distinct (map product (deduplicated_recommendations pool))"
  by (simp add: deduplicated_recommendations_def distinct_dedup_loop)

lemma key_le_iff:
  "score_idx_key c \<le> score_idx_key r \<longleftrightarrow>
     score c < score r \<or> (score c = score r \<and> vector_idx r \<le> vector_idx c)"
  by (auto simp: score_idx_key_def less_eq_prod_def)

lemma deduplicated_best:
  assumes "r \<in> set (deduplicated_recommendations pool)" "c \<in> set pool"
    "product c = product r"
  shows "score c \<le> score r \<and> (score c = score r \<longrightarrow> vector_idx r \<le> vector_idx c)"
proof -
  have "score_idx_key c \<le> score_idx_key r"
    using dedup_loop_keeps_first [OF sorted_sort_reverse, of r score_idx_key pool "{}" c] assms
    by (simp add: deduplicated_recommendations_def set_sort_reverse)
  then show ?thesis by (auto simp: key_le_iff)
qed

lemma deduplicated_sorted:
  "sorted_wrt (\<lambda>a b. score b \<le> score a) (deduplicated_recommendations pool)"
proof -
  have "sorted_wrt (\<lambda>a b. score b \<le> score a) (sort_reverse score_idx_key pool)"
    by (rule sorted_wrt_mono_rel [OF _ sorted_sort_reverse [of score_idx_key pool]])
       (auto simp: key_le_iff)
  then show ?thesis
    by (simp add: deduplicated_recommendations_def sorted_wrt_dedup_loop)
qed

lemma deduplicated_Cons:
  assumes "pool \<noteq> []"
  obtains top_match rest where "deduplicated_recommendations pool = top_match # rest"
proof -
  have "sort_reverse score_idx_key pool \<noteq> []" using assms by (simp add: sort_reverse_Nil)
  then have "deduplicated_recommendations pool \<noteq> []"
    using dedup_loop_hd by (simp add: deduplicated_recommendations_def)
  then show ?thesis using that by (cases "deduplicated_recommendations pool") auto
qed

lemma agent_2_node_v71_result:
  assumes "collect_loop index 0 (user_vectors_with_interests st) [] = Inr pool"
    and "deduplicated_recommendations pool = top_match # rest" and "pool \<noteq> []"
  shows "agent_2_node_v71 index st =
     Inr \<lparr>customer_id = customer_id st, user_interests = user_interests st,
          user_vectors_with_interests = user_vectors_with_interests st,
          ad_url = url top_match, product_st = product top_match,
          similarity_score = score top_match, play_ad = False,
          top_recommendations = shortlist top_match rest\<rparr>"
  using assms by (simp add: agent_2_node_v71_def)

lemma agent_2_node_v71_Inr:
  assumes "agent_2_node_v71 index st = Inr st'"
  obtains pool top_match rest where
    "collect_loop index 0 (user_vectors_with_interests st) [] = Inr pool" "pool \<noteq> []"
    "deduplicated_recommendations pool = top_match # rest"
    "ad_url st' = url top_match" "product_st st' = product top_match"
    "similarity_score st' = score top_match"
    "top_recommendations st' = shortlist top_match rest"
  using assms
  by (auto simp: agent_2_node_v71_def split: sum.splits if_splits list.splits)

subsection \<open>The order of v6.4\<close>

lemma sort_reverse_sorted_id:
  assumes "sorted_wrt (\<lambda>a b. key b \<le> key a) xs"
  shows "sort_reverse key xs = xs"
proof -
  have "sorted_wrt (\<lambda>a b. key a \<le> key b) (rev xs)"
    using assms by (simp add: sorted_wrt_rev)
  then have "sorted (map key (rev xs))" by (simp add: sorted_map)
  then have "sort_key key (rev xs) = rev xs" by (rule sort_key_id_if_sorted)
  then show ?thesis by (simp add: sort_reverse_def)
qed

lemma sorted_wrt_ties:
  fixes f :: "'a \<Rightarrow> 'k :: linorder"
  assumes "sorted_wrt (\<lambda>a b. f b \<le> f a) xs"
    and "\<And>k. sorted_wrt R (filter (\<lambda>y. f y = k) xs)"
  shows "sorted_wrt (\<lambda>a b. f b < f a \<or> (f b = f a \<and> R a b)) xs"
  using assms
proof (induction xs)
  case Nil
  show ?case by simp
next
  case (Cons x xs)
  have tail: "\<And>k. sorted_wrt R (filter (\<lambda>y. f y = k) xs)"
  proof -
    fix k
    show "sorted_wrt R (filter (\<lambda>y. f y = k) xs)"
      using Cons.prems(2) [of k] by (cases "f x = k") simp_all
  qed
  have head: "f y < f x \<or> (f y = f x \<and> R x y)" if y: "y \<in> set xs" for y
  proof (cases "f y = f x")
    case True
    then show ?thesis using Cons.prems(2) [of "f x"] y by simp
  next
    case False
    then show ?thesis using Cons.prems(1) y by auto
  qed
  show ?case using Cons.IH [OF _ tail] Cons.prems(1) head by simp
qed

lemma sort_reverse_score_sorted_by_key:
  assumes "sorted (map vector_idx pool)"
  shows "sorted_wrt (\<lambda>a b. score_idx_key b \<le> score_idx_key a) (sort_reverse score pool)"
proof -
  have "sorted_wrt (\<lambda>a b. vector_idx a \<le> vector_idx b)
          (filter (\<lambda>y. score y = k) (sort_reverse score pool))" for k
    using sorted_filter [OF assms, of "\<lambda>y. score y = k"]
    by (simp add: sort_reverse_stable sorted_map)
  from sorted_wrt_ties [OF sorted_sort_reverse this]
  have "sorted_wrt (\<lambda>a b. score b < score a \<or> (score b = score a \<and> vector_idx a \<le> vector_idx b))
          (sort_reverse score pool)" .
  then show ?thesis
    by (rule sorted_wrt_mono_rel [rotated]) (auto simp: key_le_iff)
qed

lemma deduplicated_v64_eq:
  "deduplicated_recommendations_v64 pool = dedup_loop (sort_reverse score pool) {} []"
proof -
  have "sorted_wrt (\<lambda>a b. score b \<le> score a) (dedup_loop (sort_reverse score pool) {} [])"
    by (rule sorted_wrt_dedup_loop) (rule sorted_sort_reverse)
  then show ?thesis
    by (simp add: deduplicated_recommendations_v64_def sort_reverse_sorted_id)
qed

lemma deduplicated_v64_best:
  assumes "sorted (map vector_idx pool)"
    and "r \<in> set (deduplicated_recommendations_v64 pool)" "c \<in> set pool"
    "product c = product r"
  shows "score c \<le> score r \<and> (score c = score r \<longrightarrow> vector_idx r \<le> vector_idx c)"
proof -
  have "score_idx_key c \<le> score_idx_key r"
    using dedup_loop_keeps_first [OF sort_reverse_score_sorted_by_key [OF assms(1)],
        of r "{}" c] assms
    by (simp add: deduplicated_v64_eq set_sort_reverse)
  then show ?thesis by (auto simp: key_le_iff)
qed

lemma vector_recommendations_loop_idx:
  "c \<in> set (vector_recommendations_loop idx ads seen recs) \<Longrightarrow>
   c \<in> set recs \<or> vector_idx c = idx"
  by (induction idx ads seen recs rule: vector_recommendations_loop.induct)
     (auto simp: Let_def split: if_splits)

lemma vector_recommendations_loop_append:
  "vector_recommendations_loop idx ads seen recs =
   recs @ vector_recommendations_loop idx ads seen []"
proof (induction ads arbitrary: seen recs)
  case Nil
  show ?case by simp
next
  case (Cons ad ads)
  let ?p = "case ad_product ad of None \<Rightarrow> '''' | Some q \<Rightarrow> q"
  let ?c = "\<lparr>url = playback_url ad, product = ?p,
             score = (case similarity ad of None \<Rightarrow> 0 | Some s \<Rightarrow> s), vector_idx = idx\<rparr>"
  show ?case
  proof (cases "?p \<notin> seen \<and> playback_url ad \<noteq> []")
    case True
    have "vector_recommendations_loop idx (ad # ads) seen recs =
            (recs @ [?c]) @ vector_recommendations_loop idx ads (insert ?p seen) []"
      using True Cons.IH [of "insert ?p seen" "recs @ [?c]"] by (simp add: Let_def)
    moreover have "vector_recommendations_loop idx (ad # ads) seen [] =
            [?c] @ vector_recommendations_loop idx ads (insert ?p seen) []"
      using True Cons.IH [of "insert ?p seen" "[?c]"] by (simp add: Let_def)
    ultimately show ?thesis by simp
  next
    case False
    then show ?thesis using Cons.IH [of seen recs] by (auto simp: Let_def)
  qed
qed

lemma sorted_map_const: "\<forall>c \<in> set xs. f c = (k :: int) \<Longrightarrow> sorted (map f xs)"
  by (induction xs) auto

lemma collect_loop_sorted_idx:
  "collect_loop index k vs acc = Inr pool \<Longrightarrow> sorted (map vector_idx acc) \<Longrightarrow>
   \<forall>c \<in> set acc. vector_idx c < int k \<Longrightarrow> sorted (map vector_idx pool)"
proof (induction vs arbitrary: k acc)
  case Nil
  then show ?case by simp
next
  case (Cons v vs)
  obtain uv iname idesc where v: "v = (uv, iname, idesc)" by (cases v)
  from Cons.prems(1) obtain found where f: "index k uv = Inr found"
    using v by (auto split: sum.splits)
  let ?new = "vector_recommendations_loop (int k) (take 10 found) {} []"
  have new: "\<forall>c \<in> set ?new. vector_idx c = int k"
    using vector_recommendations_loop_idx [of _ "int k" "take 10 found" "{}" "[]"] by auto
  have *: "collect_loop index (Suc k) vs (acc @ ?new) = Inr pool"
    using Cons.prems(1) v f by (auto simp: Let_def split: if_splits)
  have s: "sorted (map vector_idx (acc @ ?new))"
    using Cons.prems(2,3) new sorted_map_const [of ?new vector_idx "int k"]
    by (auto simp: sorted_append)
  have b: "\<forall>c \<in> set (acc @ ?new). vector_idx c < int (Suc k)"
    using Cons.prems(3) new by auto
  from Cons.IH [OF * s b] show ?case .
qed

section \<open>The example run\<close>

lemma example_agent_1: "agent_1_node_v71 example_store (initial_state_v71 ''u1'') = Inr example_s1"
  by (simp add: agent_1_node_v71_def example_store_def initial_state_v71_def example_s1_def
      vectors_with_interests_def vector_of_def interests_of_def example_vectors_def insert_commute)

lemma example_collect: "collect_loop example_index 0 example_vectors [] = Inr example_pool"
  by (simp add: example_index_def example_vectors_def example_pool_def example_ad_def
      playback_url_def)

lemma example_dedup:
  "deduplicated_recommendations example_pool =
     [\<lparr>url = ''https://ads.example/a&autoplay=1&mute=1'', product = ''Bike'',
       score = 85 / 100, vector_idx = 0\<rparr>,
      \<lparr>url = ''https://ads.example/b&autoplay=1&mute=1'', product = ''Tent'',
       score = 75 / 100, vector_idx = 0\<rparr>,
      \<lparr>url = ''https://ads.example/b&autoplay=1&mute=1'', product = ''Lamp'',
       score = 60 / 100, vector_idx = 1\<rparr>]"
  by (simp add: deduplicated_recommendations_def example_pool_def sort_reverse_def
      score_idx_key_def)

lemma example_select: "select_top_recommendation example_pool = Inr example_selection"
  by (simp add: select_top_recommendation_def example_dedup shortlist_def
      to_recommendation_def example_selection_def example_shortlist_def)

lemma example_agent_2: "agent_2_node_v71 example_index example_s1 = Inr example_s2"
proof -
  have "user_vectors_with_interests example_s1 = example_vectors"
    by (simp add: example_s1_def)
  moreover have "example_pool \<noteq> []" by (simp add: example_pool_def)
  ultimately show ?thesis
    by (simp add: agent_2_node_v71_def example_collect example_dedup shortlist_def
      to_recommendation_def example_s2_def example_shortlist_def example_s1_def)
qed

section \<open>Properties of the selector\<close>

text \<open>
  Claim C6. For a non-empty pool the selector keeps exactly one candidate of each product,
  one with the highest score of that product and, among those, with the lowest vector
  index; the deduplicated list is in descending order of score and its first element is
  the top match that \<open>select_top_recommendation\<close> (v7.0) and \<open>agent_2_node\<close> (v7.1) return.
  The selection of v6.4 sorts by the score alone and keeps the order of the pool among equal
  scores; every pool that the collector builds has ascending vector indices, and on such
  a pool v6.4 keeps the same candidates.
\<close>

theorem dedup_keeps_best_per_product:
  assumes "pool \<noteq> []"
  shows "set (deduplicated_recommendations pool) \<subseteq> set pool \<and>
         product ` set (deduplicated_recommendations pool) = product ` set pool \<and>
         distinct (map product (deduplicated_recommendations pool)) \<and>
         (\<forall>r \<in> set (deduplicated_recommendations pool). \<forall>c \<in> set pool.
            product c = product r \<longrightarrow>
              score c \<le> score r \<and> (score c = score r \<longrightarrow> vector_idx r \<le> vector_idx c)) \<and>
         sorted_wrt (\<lambda>a b. score b \<le> score a) (deduplicated_recommendations pool) \<and>
         (\<exists>top_match rest.
            deduplicated_recommendations pool = top_match # rest \<and>
            select_top_recommendation pool =
              Inr \<lparr>top_ad = to_recommendation top_match,
                   top_recommendations_resp = shortlist top_match rest\<rparr> \<and>
            (\<forall>index st.
               collect_loop index 0 (user_vectors_with_interests st) [] = Inr pool \<longrightarrow>
               (\<exists>st'. agent_2_node_v71 index st = Inr st' \<and> ad_url st' = url top_match \<and>
                  product_st st' = product top_match \<and>
                  similarity_score st' = score top_match))) \<and>
         (\<forall>index vs. collect_loop index 0 vs [] = Inr pool \<longrightarrow>
            sorted (map vector_idx pool)) \<and>
         (sorted (map vector_idx pool) \<longrightarrow>
            set (deduplicated_recommendations_v64 pool) \<subseteq> set pool \<and>
            product ` set (deduplicated_recommendations_v64 pool) = product ` set pool \<and>
            distinct (map product (deduplicated_recommendations_v64 pool)) \<and>
            (\<forall>r \<in> set (deduplicated_recommendations_v64 pool). \<forall>c \<in> set pool.
               product c = product r \<longrightarrow>
                 score c \<le> score r \<and> (score c = score r \<longrightarrow> vector_idx r \<le> vector_idx c)) \<and>
            sorted_wrt (\<lambda>a b. score b \<le> score a) (deduplicated_recommendations_v64 pool) \<and>
            (\<exists>top_match rest.
               deduplicated_recommendations_v64 pool = top_match # rest \<and>
               selection_v64 pool = Inr (Some (top_match, shortlist top_match rest))))"
proof -
  let ?D = "deduplicated_recommendations pool"
  let ?E = "deduplicated_recommendations_v64 pool"
  have best: "\<forall>r \<in> set ?D. \<forall>c \<in> set pool. product c = product r \<longrightarrow>
      score c \<le> score r \<and> (score c = score r \<longrightarrow> vector_idx r \<le> vector_idx c)"
    using deduplicated_best by blast
  obtain t rest where d: "?D = t # rest" using assms by (rule deduplicated_Cons)
  have sel: "select_top_recommendation pool =
      Inr \<lparr>top_ad = to_recommendation t, top_recommendations_resp = shortlist t rest\<rparr>"
    using d by (simp add: select_top_recommendation_def)
  have a2: "\<forall>index st.
      collect_loop index 0 (user_vectors_with_interests st) [] = Inr pool \<longrightarrow>
      (\<exists>st'. agent_2_node_v71 index st = Inr st' \<and> ad_url st' = url t \<and>
         product_st st' = product t \<and> similarity_score st' = score t)"
    using agent_2_node_v71_result [OF _ d assms] by simp
  have top: "\<exists>top_match rest.
      ?D = top_match # rest \<and>
      select_top_recommendation pool =
        Inr \<lparr>top_ad = to_recommendation top_match,
             top_recommendations_resp = shortlist top_match rest\<rparr> \<and>
      (\<forall>index st.
         collect_loop index 0 (user_vectors_with_interests st) [] = Inr pool \<longrightarrow>
         (\<exists>st'. agent_2_node_v71 index st = Inr st' \<and> ad_url st' = url top_match \<and>
            product_st st' = product top_match \<and> similarity_score st' = score top_match))"
    using d sel a2 by blast
  have e1: "set ?E \<subseteq> set pool"
    using set_dedup_loop [of "sort_reverse score pool" "{}"]
    by (simp add: deduplicated_v64_eq set_sort_reverse)
  have e2: "product ` set ?E = product ` set pool"
    using products_dedup_loop [of "sort_reverse score pool" "{}"]
    by (simp add: deduplicated_v64_eq set_sort_reverse)
  have e3: "distinct (map product ?E)"
    by (simp add: deduplicated_v64_eq distinct_dedup_loop)
  have e4: "sorted (map vector_idx pool) \<Longrightarrow> \<forall>r \<in> set ?E. \<forall>c \<in> set pool.
      product c = product r \<longrightarrow>
        score c \<le> score r \<and> (score c = score r \<longrightarrow> vector_idx r \<le> vector_idx c)"
    using deduplicated_v64_best by blast
  have e5: "sorted_wrt (\<lambda>a b. score b \<le> score a) ?E"
    by (simp add: deduplicated_v64_eq sorted_wrt_dedup_loop sorted_sort_reverse)
  have "sort_reverse score pool \<noteq> []" using assms by (simp add: sort_reverse_Nil)
  then have "?E \<noteq> []" using dedup_loop_hd by (simp add: deduplicated_v64_eq)
  then obtain u more where "?E = u # more" by (cases ?E) auto
  then have e6: "\<exists>top_match rest. ?E = top_match # rest \<and>
      selection_v64 pool = Inr (Some (top_match, shortlist top_match rest))"
    using assms by (simp add: selection_v64_def)
  have co: "\<forall>index vs. collect_loop index 0 vs [] = Inr pool \<longrightarrow>
      sorted (map vector_idx pool)"
    using collect_loop_sorted_idx [of _ 0 _ "[]" pool] by simp
  show ?thesis
    using deduplicated_subset [of pool] deduplicated_products [of pool]
      deduplicated_distinct [of pool] best deduplicated_sorted [of pool] top
      co e1 e2 e3 e4 e5 e6
    by blast
qed

theorem dedup_keeps_best_per_product_witness:
  "example_pool \<noteq> [] \<and>
   collect_loop example_index 0 example_vectors [] = Inr example_pool \<and>
   sorted (map vector_idx example_pool) \<and>
   product ` set (deduplicated_recommendations example_pool) = {''Bike'', ''Tent'', ''Lamp''} \<and>
   distinct (map product (deduplicated_recommendations example_pool)) \<and>
   sorted_wrt (\<lambda>a b. score b \<le> score a) (deduplicated_recommendations example_pool) \<and>
   map vector_idx (deduplicated_recommendations example_pool) = [0, 0, 1] \<and>
   map score (deduplicated_recommendations example_pool) = [85 / 100, 75 / 100, 60 / 100] \<and>
   select_top_recommendation example_pool = Inr example_selection \<and>
   agent_2_node_v71 example_index example_s1 = Inr example_s2 \<and>
   distinct (map product (deduplicated_recommendations_v64 example_pool)) \<and>
   sorted_wrt (\<lambda>a b. score b \<le> score a) (deduplicated_recommendations_v64 example_pool)"
proof -
  have ne: "example_pool \<noteq> []" by (simp add: example_pool_def)
  have so: "sorted (map vector_idx example_pool)" by (simp add: example_pool_def)
  have pr: "product ` set example_pool = {''Bike'', ''Tent'', ''Lamp''}"
    by (auto simp: example_pool_def)
  have ix: "map vector_idx (deduplicated_recommendations example_pool) = [0, 0, 1]"
    "map score (deduplicated_recommendations example_pool) = [85 / 100, 75 / 100, 60 / 100]"
    by (simp_all add: example_dedup)
  show ?thesis
    using dedup_keeps_best_per_product [OF ne] ne so pr ix example_select example_agent_2
      example_collect
    by simp
qed

text \<open>
  Claim C7. The deduplicated list of the selector never holds two candidates of one
  product, and the shortlist that \<open>select_top_recommendation\<close> (v7.0) or \<open>agent_2_node\<close>
  (v7.1) returns never holds two entries with one url, nor two with one product.
\<close>

theorem selector_output_distinct:
  "distinct (map product (deduplicated_recommendations pool)) \<and>
   (select_top_recommendation pool = Inr res \<longrightarrow>
      distinct (map product (top_recommendations_resp res)) \<and>
      distinct (map url (top_recommendations_resp res))) \<and>
   (agent_2_node_v71 index st = Inr st' \<longrightarrow>
      distinct (map product (top_recommendations st')) \<and>
      distinct (map url (top_recommendations st')))"
proof (intro conjI impI)
  show "distinct (map product (deduplicated_recommendations pool))"
    by (rule deduplicated_distinct)
next
  assume "select_top_recommendation pool = Inr res"
  then obtain t rest where d: "deduplicated_recommendations pool = t # rest"
    and r: "top_recommendations_resp res = shortlist t rest"
    by (auto simp: select_top_recommendation_def split: list.splits)
  have "distinct (map product (t # rest))" using deduplicated_distinct [of pool] d by simp
  then show "distinct (map product (top_recommendations_resp res))"
    using r shortlist_distinct_product by simp
  show "distinct (map url (top_recommendations_resp res))"
    using r shortlist_distinct_url by simp
next
  assume a: "agent_2_node_v71 index st = Inr st'"
  then obtain p t rest where d: "deduplicated_recommendations p = t # rest"
    and r: "top_recommendations st' = shortlist t rest"
    by (rule agent_2_node_v71_Inr)
  have "distinct (map product (t # rest))" using deduplicated_distinct [of p] d by simp
  then show "distinct (map product (top_recommendations st'))"
    using r shortlist_distinct_product by simp
  show "distinct (map url (top_recommendations st'))"
    using r shortlist_distinct_url by simp
qed

theorem selector_output_distinct_witness:
  "select_top_recommendation example_pool = Inr example_selection \<and>
   agent_2_node_v71 example_index example_s1 = Inr example_s2 \<and>
   distinct (map product (deduplicated_recommendations example_pool)) \<and>
   distinct (map product (top_recommendations_resp example_selection)) \<and>
   distinct (map url (top_recommendations_resp example_selection)) \<and>
   distinct (map product (top_recommendations example_s2)) \<and>
   distinct (map url (top_recommendations example_s2))"
  using selector_output_distinct [of example_pool example_selection example_index
      example_s1 example_s2] example_select example_agent_2
  by simp

text \<open>
  Claim C8. For a non-empty pool the shortlist has \<open>min 5 n\<close> entries, where \<open>n\<close> is the
  number of distinct urls in the deduplicated list, and the score of its first entry is
  the greatest score in the deduplicated list; this holds for the result of
  \<open>select_top_recommendation\<close> (v7.0) and for the state that \<open>agent_2_node\<close> (v7.1) returns.
\<close>

theorem shortlist_length_and_top_score:
  assumes "pool \<noteq> []"
  shows "(\<exists>res. select_top_recommendation pool = Inr res \<and>
            length (top_recommendations_resp res) =
              min 5 (card (url ` set (deduplicated_recommendations pool))) \<and>
            score (hd (top_recommendations_resp res)) =
              Max (score ` set (deduplicated_recommendations pool))) \<and>
         (\<forall>index st.
            collect_loop index 0 (user_vectors_with_interests st) [] = Inr pool \<longrightarrow>
            (\<exists>st'. agent_2_node_v71 index st = Inr st' \<and>
               length (top_recommendations st') =
                 min 5 (card (url ` set (deduplicated_recommendations pool))) \<and>
               score (hd (top_recommendations st')) =
                 Max (score ` set (deduplicated_recommendations pool))))"
proof -
  obtain t rest where d: "deduplicated_recommendations pool = t # rest"
    using assms by (rule deduplicated_Cons)
  have "sorted_wrt (\<lambda>a b. score b \<le> score a) (t # rest)"
    using deduplicated_sorted [of pool] d by simp
  then have "score t = Max (score ` set (t # rest))" by (rule sorted_desc_hd_Max)
  then have m: "Max (score ` set (deduplicated_recommendations pool)) = score t"
    unfolding d by (rule sym)
  have len: "length (shortlist t rest) =
      min 5 (card (url ` set (deduplicated_recommendations pool)))"
    using shortlist_length [of t rest] d by simp
  have hd: "score (hd (shortlist t rest)) = score t"
    by (simp add: shortlist_hd to_recommendation_def)
  have 1: "\<exists>res. select_top_recommendation pool = Inr res \<and>
            length (top_recommendations_resp res) =
              min 5 (card (url ` set (deduplicated_recommendations pool))) \<and>
            score (hd (top_recommendations_resp res)) =
              Max (score ` set (deduplicated_recommendations pool))"
  proof -
    have "select_top_recommendation pool =
        Inr \<lparr>top_ad = to_recommendation t, top_recommendations_resp = shortlist t rest\<rparr>"
      using d by (simp add: select_top_recommendation_def)
    then show ?thesis by (simp add: m len hd)
  qed
  have 2: "\<forall>index st.
            collect_loop index 0 (user_vectors_with_interests st) [] = Inr pool \<longrightarrow>
            (\<exists>st'. agent_2_node_v71 index st = Inr st' \<and>
               length (top_recommendations st') =
                 min 5 (card (url ` set (deduplicated_recommendations pool))) \<and>
               score (hd (top_recommendations st')) =
                 Max (score ` set (deduplicated_recommendations pool)))"
    using agent_2_node_v71_result [OF _ d assms] by (simp add: m len hd)
  from 1 2 show ?thesis ..
qed

theorem shortlist_length_and_top_score_witness:
  "example_pool \<noteq> [] \<and>
   collect_loop example_index 0 (user_vectors_with_interests example_s1) [] = Inr example_pool \<and>
   card (url ` set (deduplicated_recommendations example_pool)) = 2 \<and>
   Max (score ` set (deduplicated_recommendations example_pool)) = 85 / 100 \<and>
   select_top_recommendation example_pool = Inr example_selection \<and>
   length (top_recommendations_resp example_selection) = 2 \<and>
   score (hd (top_recommendations_resp example_selection)) = 85 / 100 \<and>
   agent_2_node_v71 example_index example_s1 = Inr example_s2 \<and>
   length (top_recommendations example_s2) = 2 \<and>
   score (hd (top_recommendations example_s2)) = 85 / 100"
proof -
  have ne: "example_pool \<noteq> []" by (simp add: example_pool_def)
  have co: "collect_loop example_index 0 (user_vectors_with_interests example_s1) [] =
      Inr example_pool"
    using example_collect by (simp add: example_s1_def)
  have ca: "card (url ` set (deduplicated_recommendations example_pool)) = 2"
    by (simp add: example_dedup)
  have ma: "Max (score ` set (deduplicated_recommendations example_pool)) = 85 / 100"
    by (simp add: example_dedup)
  note th = shortlist_length_and_top_score [OF ne]
  from th have "\<exists>res. select_top_recommendation example_pool = Inr res \<and>
      length (top_recommendations_resp res) =
        min 5 (card (url ` set (deduplicated_recommendations example_pool))) \<and>
      score (hd (top_recommendations_resp res)) =
        Max (score ` set (deduplicated_recommendations example_pool))" ..
  then have v70: "length (top_recommendations_resp example_selection) = 2 \<and>
      score (hd (top_recommendations_resp example_selection)) = 85 / 100"
    unfolding example_select ca ma by simp
  from th co have "\<exists>st'. agent_2_node_v71 example_index example_s1 = Inr st' \<and>
      length (top_recommendations st') =
        min 5 (card (url ` set (deduplicated_recommendations example_pool))) \<and>
      score (hd (top_recommendations st')) =
        Max (score ` set (deduplicated_recommendations example_pool))"
    by blast
  then have v71: "length (top_recommendations example_s2) = 2 \<and>
      score (hd (top_recommendations example_s2)) = 85 / 100"
    unfolding example_agent_2 ca ma by simp
  show ?thesis
    using ne co ca ma example_select example_agent_2 v70 v71 by blast
qed

section \<open>Properties of the collector\<close>

lemma upt_shift_map:
  "map f [0..<Suc n] = f 0 # map (\<lambda>i. f (Suc i)) [0..<n]"
proof -
  have "[0..<Suc n] = 0 # map Suc [0..<n]"
    by (simp add: upt_conv_Cons map_Suc_upt del: upt_Suc)
  then show ?thesis by (simp add: comp_def del: upt_Suc)
qed

lemma collect_loop_all_return:
  "(\<And>i. i < length vs \<Longrightarrow> \<not> isl (index (k + i) (fst (vs ! i)))) \<Longrightarrow>
   collect_loop index k vs acc =
     Inr (acc @ concat (map (\<lambda>i. query_candidates (k + i) (index (k + i) (fst (vs ! i))))
                          [0..<length vs]))"
proof (induction vs arbitrary: k acc)
  case Nil
  show ?case by simp
next
  case (Cons v vs)
  obtain uv iname idesc where v: "v = (uv, iname, idesc)" by (cases v)
  have "\<not> isl (index (k + 0) (fst ((v # vs) ! 0)))" using Cons.prems [of 0] by simp
  then obtain found where f: "index k uv = Inr found"
    using v by (cases "index k uv") auto
  have rest: "\<not> isl (index (Suc k + i) (fst (vs ! i)))" if "i < length vs" for i
    using Cons.prems [of "Suc i"] that by simp
  have step: "collect_loop index k (v # vs) acc =
      collect_loop index (Suc k) vs (acc @ query_candidates k (index k uv))"
    using v f by (simp add: Let_def)
  have "map (\<lambda>i. query_candidates (k + i) (index (k + i) (fst ((v # vs) ! i))))
          [0..<length (v # vs)] =
        query_candidates k (index k uv) #
        map (\<lambda>i. query_candidates (Suc k + i) (index (Suc k + i) (fst (vs ! i))))
          [0..<length vs]"
    using upt_shift_map
      [of "\<lambda>i. query_candidates (k + i) (index (k + i) (fst ((v # vs) ! i)))" "length vs"] v
    by simp
  then show ?case using step Cons.IH [OF rest] by simp
qed

lemma collect_loop_first_raise:
  "i < length vs \<Longrightarrow> index (k + i) (fst (vs ! i)) = Inl m \<Longrightarrow>
   (\<And>j. j < i \<Longrightarrow> \<not> isl (index (k + j) (fst (vs ! j)))) \<Longrightarrow>
   collect_loop index k vs acc = Inl (ClientError m)"
proof (induction vs arbitrary: k acc i)
  case Nil
  then show ?case by simp
next
  case (Cons v vs)
  obtain uv iname idesc where v: "v = (uv, iname, idesc)" by (cases v)
  show ?case
  proof (cases i)
    case 0
    then show ?thesis using Cons.prems(2) v by simp
  next
    case (Suc i')
    have "\<not> isl (index (k + 0) (fst ((v # vs) ! 0)))" using Cons.prems(3) [of 0] Suc by simp
    then obtain found where f: "index k uv = Inr found"
      using v by (cases "index k uv") auto
    have 1: "i' < length vs" using Cons.prems(1) Suc by simp
    have 2: "index (Suc k + i') (fst (vs ! i')) = Inl m" using Cons.prems(2) Suc by simp
    have 3: "\<not> isl (index (Suc k + j) (fst (vs ! j)))" if "j < i'" for j
      using Cons.prems(3) [of "Suc j"] that Suc by simp
    show ?thesis using v f Cons.IH [OF 1 2 3] by (simp add: Let_def)
  qed
qed

lemma collect_loop_merged_pool:
  assumes "\<forall>i<length vs. \<not> query_raises index vs i"
  shows "collect_loop index 0 vs [] = Inr (merged_pool index vs)"
  using collect_loop_all_return [of vs index 0 "[]"] assms
  by (simp add: merged_pool_def query_raises_def)

lemma collect_loop_raises:
  assumes "i < length vs" "index i (fst (vs ! i)) = Inl m"
    "\<forall>j<i. \<not> query_raises index vs j"
  shows "collect_loop index 0 vs [] = Inl (ClientError m)"
  using collect_loop_first_raise [of i vs index 0 m "[]"] assms
  by (simp add: query_raises_def)

lemma collect_loop_cases:
  obtains (returns) "\<forall>i<length vs. \<not> query_raises index vs i"
      "collect_loop index 0 vs [] = Inr (merged_pool index vs)"
  | (raises) i m where "i < length vs" "index i (fst (vs ! i)) = Inl m"
      "\<forall>j<i. \<not> query_raises index vs j"
      "collect_loop index 0 vs [] = Inl (ClientError m)"
proof (cases "\<forall>i<length vs. \<not> query_raises index vs i")
  case True
  then show ?thesis using returns collect_loop_merged_pool by blast
next
  case False
  define i where "i = (LEAST i. i < length vs \<and> query_raises index vs i)"
  have ex: "\<exists>i. i < length vs \<and> query_raises index vs i" using False by blast
  have i: "i < length vs \<and> query_raises index vs i"
    unfolding i_def using ex by (rule LeastI_ex)
  have less: "\<forall>j<i. \<not> query_raises index vs j"
  proof (intro allI impI)
    fix j assume "j < i"
    then have "\<not> (j < length vs \<and> query_raises index vs j)"
      unfolding i_def by (rule not_less_Least)
    moreover have "j < length vs" using \<open>j < i\<close> i by simp
    ultimately show "\<not> query_raises index vs j" by simp
  qed
  obtain m where m: "index i (fst (vs ! i)) = Inl m"
    using i by (cases "index i (fst (vs ! i))") (auto simp: query_raises_def)
  show ?thesis using raises [of i m] i m less collect_loop_raises by blast
qed


lemma perform_selection_approach_cases:
  "perform_selection_approach index vs =
     (case collect_loop index 0 vs [] of
        Inl e \<Rightarrow> Inl e
      | Inr pool \<Rightarrow> if pool = [] then Inl (HTTPException 404 NO_ADS_FOUND) else Inr pool)"
  by (simp add: perform_selection_approach_def)

lemma agent_2_node_v71_not_found:
  "agent_2_node_v71 index st = Inl (ValueError NO_ADS_FOUND) \<longleftrightarrow>
   collect_loop index 0 (user_vectors_with_interests st) [] = Inr []"
proof (cases "collect_loop index 0 (user_vectors_with_interests st) []")
  case (Inl e)
  have "e \<noteq> ValueError NO_ADS_FOUND"
    using Inl by (cases rule: collect_loop_cases [of "user_vectors_with_interests st" index]) auto
  then show ?thesis using Inl by (simp add: agent_2_node_v71_def)
next
  case (Inr pool)
  show ?thesis
  proof (cases "pool = []")
    case True
    then show ?thesis using Inr by (simp add: agent_2_node_v71_def)
  next
    case False
    then obtain t rest where "deduplicated_recommendations pool = t # rest"
      by (rule deduplicated_Cons)
    then show ?thesis using Inr False by (simp add: agent_2_node_v71_def)
  qed
qed

lemma agent_1_node_v71_Inr:
  assumes "agent_1_node_v71 store st = Inr s1"
  shows "customer_id s1 = customer_id st \<and> customer_id s1 \<noteq> [] \<and>
         user_vectors_with_interests s1 \<noteq> []"
  using assms by (auto simp: agent_1_node_v71_def split: if_splits sum.splits)

text \<open>
  Claim C5. When no query raises, the collection yields the merged pool, to which every
  vector contributes the candidates of its own query whatever the earlier queries
  returned: a query with zero results is skipped and the later vectors are still queried.
  The failure "No advertisements found across all vectors" is reported (as status 404 by
  \<open>perform_selection_approach\<close> of v7.0, as \<open>ValueError\<close> by \<open>agent_2_node\<close> of v7.1) if and
  only if every query returned and the merged pool is empty.
\<close>

theorem not_found_iff_merged_pool_empty:
  "((\<forall>i<length vs. \<not> query_raises index vs i) \<longrightarrow>
      collect_loop index 0 vs [] = Inr (merged_pool index vs) \<and>
      (\<forall>j<length vs.
         set (query_candidates j (index j (fst (vs ! j)))) \<subseteq> set (merged_pool index vs)) \<and>
      perform_selection_approach index vs =
        (if merged_pool index vs = [] then Inl (HTTPException 404 NO_ADS_FOUND)
         else Inr (merged_pool index vs))) \<and>
   (perform_selection_approach index vs = Inl (HTTPException 404 NO_ADS_FOUND) \<longleftrightarrow>
      (\<forall>i<length vs. \<not> query_raises index vs i) \<and> merged_pool index vs = []) \<and>
   (agent_2_node_v71 index st = Inl (ValueError NO_ADS_FOUND) \<longleftrightarrow>
      (\<forall>i<length (user_vectors_with_interests st).
         \<not> query_raises index (user_vectors_with_interests st) i) \<and>
      merged_pool index (user_vectors_with_interests st) = [])"
proof -
  have iff: "collect_loop index 0 ws [] = Inr [] \<longleftrightarrow>
      (\<forall>i<length ws. \<not> query_raises index ws i) \<and> merged_pool index ws = []" for ws
    by (cases rule: collect_loop_cases [of ws index]) (auto simp: query_raises_def)
  have 1: "(\<forall>i<length vs. \<not> query_raises index vs i) \<longrightarrow>
      collect_loop index 0 vs [] = Inr (merged_pool index vs) \<and>
      (\<forall>j<length vs.
         set (query_candidates j (index j (fst (vs ! j)))) \<subseteq> set (merged_pool index vs)) \<and>
      perform_selection_approach index vs =
        (if merged_pool index vs = [] then Inl (HTTPException 404 NO_ADS_FOUND)
         else Inr (merged_pool index vs))"
  proof (intro impI conjI)
    assume a: "\<forall>i<length vs. \<not> query_raises index vs i"
    then show c: "collect_loop index 0 vs [] = Inr (merged_pool index vs)"
      by (rule collect_loop_merged_pool)
    show "\<forall>j<length vs.
        set (query_candidates j (index j (fst (vs ! j)))) \<subseteq> set (merged_pool index vs)"
      by (auto simp: merged_pool_def)
    show "perform_selection_approach index vs =
        (if merged_pool index vs = [] then Inl (HTTPException 404 NO_ADS_FOUND)
         else Inr (merged_pool index vs))"
      using c by (simp add: perform_selection_approach_cases)
  qed
  have 2: "perform_selection_approach index vs = Inl (HTTPException 404 NO_ADS_FOUND) \<longleftrightarrow>
      (\<forall>i<length vs. \<not> query_raises index vs i) \<and> merged_pool index vs = []"
  proof -
    have "perform_selection_approach index vs = Inl (HTTPException 404 NO_ADS_FOUND) \<longleftrightarrow>
        collect_loop index 0 vs [] = Inr []"
      by (cases rule: collect_loop_cases [of vs index])
         (auto simp: perform_selection_approach_cases)
    then show ?thesis using iff [of vs] by simp
  qed
  have 3: "agent_2_node_v71 index st = Inl (ValueError NO_ADS_FOUND) \<longleftrightarrow>
      (\<forall>i<length (user_vectors_with_interests st).
         \<not> query_raises index (user_vectors_with_interests st) i) \<and>
      merged_pool index (user_vectors_with_interests st) = []"
    using agent_2_node_v71_not_found [of index st] iff [of "user_vectors_with_interests st"]
    by simp
  from 1 2 3 show ?thesis by blast
qed

lemma example_gap_collect:
  "collect_loop example_index_gap 0 example_vectors [] =
     Inr [\<lparr>url = ''https://ads.example/a&autoplay=1&mute=1'', product = ''Bike'',
           score = 85 / 100, vector_idx = 1\<rparr>]"
  by (simp add: example_index_gap_def example_vectors_def example_ad_def playback_url_def)

theorem not_found_iff_merged_pool_empty_witness:
  "length example_vectors = 2 \<and>
   \<not> query_raises example_index_gap example_vectors 0 \<and>
   \<not> query_raises example_index_gap example_vectors 1 \<and>
   example_index_gap 0 (fst (example_vectors ! 0)) = Inr [] \<and>
   merged_pool example_index_gap example_vectors =
     [\<lparr>url = ''https://ads.example/a&autoplay=1&mute=1'', product = ''Bike'',
       score = 85 / 100, vector_idx = 1\<rparr>] \<and>
   perform_selection_approach example_index_gap example_vectors =
     Inr (merged_pool example_index_gap example_vectors) \<and>
   \<not> query_raises example_index_empty example_vectors 0 \<and>
   \<not> query_raises example_index_empty example_vectors 1 \<and>
   merged_pool example_index_empty example_vectors = [] \<and>
   perform_selection_approach example_index_empty example_vectors =
     Inl (HTTPException 404 NO_ADS_FOUND) \<and>
   agent_2_node_v71 example_index_empty example_s1 = Inl (ValueError NO_ADS_FOUND)"
proof -
  have len: "length example_vectors = 2" by (simp add: example_vectors_def)
  have g0: "\<not> query_raises example_index_gap example_vectors 0"
    and g1: "\<not> query_raises example_index_gap example_vectors 1"
    by (simp_all add: query_raises_def example_index_gap_def)
  have e0: "\<not> query_raises example_index_empty example_vectors 0"
    and e1: "\<not> query_raises example_index_empty example_vectors 1"
    by (simp_all add: query_raises_def example_index_empty_def)
  have g: "\<forall>i<length example_vectors. \<not> query_raises example_index_gap example_vectors i"
    by (simp add: query_raises_def example_index_gap_def)
  have e: "\<forall>i<length example_vectors. \<not> query_raises example_index_empty example_vectors i"
    by (simp add: query_raises_def example_index_empty_def)
  have z: "example_index_gap 0 (fst (example_vectors ! 0)) = Inr []"
    by (simp add: example_index_gap_def)
  have v: "user_vectors_with_interests example_s1 = example_vectors"
    by (simp add: example_s1_def)
  note gap = not_found_iff_merged_pool_empty [of example_vectors example_index_gap example_s1]
  note emp = not_found_iff_merged_pool_empty [of example_vectors example_index_empty example_s1]
  have mg: "merged_pool example_index_gap example_vectors =
     [\<lparr>url = ''https://ads.example/a&autoplay=1&mute=1'', product = ''Bike'',
       score = 85 / 100, vector_idx = 1\<rparr>]"
    using gap g example_gap_collect by simp
  have pg: "perform_selection_approach example_index_gap example_vectors =
     Inr (merged_pool example_index_gap example_vectors)"
    using gap g mg by simp
  have me: "merged_pool example_index_empty example_vectors = []"
    using emp e by (simp add: example_index_empty_def example_vectors_def)
  have pe: "perform_selection_approach example_index_empty example_vectors =
     Inl (HTTPException 404 NO_ADS_FOUND)"
    using emp e me by simp
  have ae: "agent_2_node_v71 example_index_empty example_s1 = Inl (ValueError NO_ADS_FOUND)"
    using emp e me v by simp
  show ?thesis using len g0 g1 e0 e1 z mg pg me pe ae by blast
qed

lemma agent_2_node_v64_raise:
  assumes "collect_loop index 0 (user_vectors_with_interests st) [] = Inl e"
  shows "agent_2_node_v64 connect index st = no_result_v64 st"
  using assms by (simp add: agent_2_node_v64_def agent_2_try_v64_def split: option.splits)

lemma get_recommendations_v71_graph:
  "get_recommendations_v71 store index user_id =
     endpoint_except
       (case agent_1_node_v71 store (initial_state_v71 user_id) of
          Inl e \<Rightarrow> Inl e
        | Inr s1 \<Rightarrow>
            (case agent_2_node_v71 index s1 of
               Inl e \<Rightarrow> Inl e
             | Inr s2 \<Rightarrow>
                 if top_recommendations (agent_3_node_v71 s2) = [] then
                   Inl (HTTPException 404 ''Failed to generate recommendations'')
                 else
                   Inr \<lparr>resp_customer_id = customer_id s2,
                        resp_user_interests = user_interests s2,
                        selection_approach =
                          \<lparr>top_ad = \<lparr>url = ad_url (agent_3_node_v71 s2),
                                      product = product_st (agent_3_node_v71 s2),
                                      score = similarity_score (agent_3_node_v71 s2)\<rparr>,
                           top_recommendations_resp =
                             top_recommendations (agent_3_node_v71 s2)\<rparr>\<rparr>))"
proof (cases "agent_1_node_v71 store (initial_state_v71 user_id)")
  case (Inl e)
  then show ?thesis by (simp add: get_recommendations_v71_def graph_invoke_v71_def)
next
  case (Inr s1)
  have s1: "customer_id s1 \<noteq> []" using agent_1_node_v71_Inr [OF Inr] by blast
  show ?thesis
  proof (cases "agent_2_node_v71 index s1")
    case (Inl e)
    then show ?thesis using Inr s1
      by (simp add: get_recommendations_v71_def graph_invoke_v71_def)
  next
    case r: (Inr s2)
    have "customer_id s2 = customer_id s1"
      using r by (auto simp: agent_2_node_v71_def split: sum.splits if_splits list.splits)
    then have c2: "customer_id s2 \<noteq> []" using s1 by simp
    have c3: "customer_id (agent_3_node_v71 s2) = customer_id s2"
      by (simp add: agent_3_node_v71_def)
    have u3: "user_interests (agent_3_node_v71 s2) = user_interests s2"
      by (simp add: agent_3_node_v71_def)
    show ?thesis using Inr r s1
      by (simp add: get_recommendations_v71_def graph_invoke_v71_def c2 c3 u3)
  qed
qed

text \<open>
  Claim C4, as the code has it. No revision recovers from a query that raises: at the
  first such query the collection stops with that exception, whatever the later queries
  would return. \<open>perform_selection_approach\<close> (v7.0) and \<open>agent_2_node\<close> (v7.1) raise it, so
  that the not-found condition is not reported, both endpoints answer with status 500, and
  \<open>agent_2_node\<close> of v6.4 returns its empty result.
\<close>

theorem query_error_aborts_collection:
  assumes "i < length vs" and "index i (fst (vs ! i)) = Inl m"
    and "\<forall>j<i. \<not> query_raises index vs j"
  shows "collect_loop index 0 vs [] = Inl (ClientError m) \<and>
         perform_selection_approach index vs = Inl (ClientError m) \<and>
         (\<forall>store user_id customer interests.
            get_user_data store user_id = Inr (customer, interests, vs) \<longrightarrow>
            get_recommendations_v70 store index user_id =
              Inl (HTTPException 500 (''Internal server error: '' @ m))) \<and>
         (\<forall>st. user_vectors_with_interests st = vs \<longrightarrow>
            agent_2_node_v71 index st = Inl (ClientError m)) \<and>
         (\<forall>store user_id s1.
            agent_1_node_v71 store (initial_state_v71 user_id) = Inr s1 \<and>
            user_vectors_with_interests s1 = vs \<longrightarrow>
            get_recommendations_v71 store index user_id =
              Inl (HTTPException 500 (''Internal server error: '' @ m))) \<and>
         (\<forall>connect st. user_vectors_with_interests st = vs \<longrightarrow>
            agent_2_node_v64 connect index st = no_result_v64 st)"
proof -
  have c: "collect_loop index 0 vs [] = Inl (ClientError m)"
    using assms by (rule collect_loop_raises)
  have p: "perform_selection_approach index vs = Inl (ClientError m)"
    using c by (simp add: perform_selection_approach_cases)
  have e70: "\<forall>store user_id customer interests.
      get_user_data store user_id = Inr (customer, interests, vs) \<longrightarrow>
      get_recommendations_v70 store index user_id =
        Inl (HTTPException 500 (''Internal server error: '' @ m))"
    using p by (simp add: get_recommendations_v70_def)
  have a71: "\<forall>st. user_vectors_with_interests st = vs \<longrightarrow>
      agent_2_node_v71 index st = Inl (ClientError m)"
    using c by (simp add: agent_2_node_v71_def)
  have e71: "\<forall>store user_id s1.
      agent_1_node_v71 store (initial_state_v71 user_id) = Inr s1 \<and>
      user_vectors_with_interests s1 = vs \<longrightarrow>
      get_recommendations_v71 store index user_id =
        Inl (HTTPException 500 (''Internal server error: '' @ m))"
    using a71 by (simp add: get_recommendations_v71_graph)
  have a64: "\<forall>connect st. user_vectors_with_interests st = vs \<longrightarrow>
      agent_2_node_v64 connect index st = no_result_v64 st"
    using c agent_2_node_v64_raise by simp
  from c p e70 a71 e71 a64 show ?thesis by blast
qed

lemma example_get_user_data:
  "get_user_data example_store ''u1'' =
     Inr (''u1'', user_interests example_s1, example_vectors)"
  by (simp add: get_user_data_def example_store_def example_s1_def
      vectors_with_interests_def vector_of_def interests_of_def example_vectors_def
      insert_commute)

theorem query_error_aborts_collection_witness:
  "(1::nat) < length example_vectors \<and>
   example_index_failing 0 (fst (example_vectors ! 0)) = Inl ''timeout'' \<and>
   perform_selection_approach example_index_failing example_vectors =
     Inl (ClientError ''timeout'') \<and>
   get_recommendations_v70 example_store example_index_failing ''u1'' =
     Inl (HTTPException 500 ''Internal server error: timeout'') \<and>
   agent_2_node_v71 example_index_failing example_s1 = Inl (ClientError ''timeout'') \<and>
   get_recommendations_v71 example_store example_index_failing ''u1'' =
     Inl (HTTPException 500 ''Internal server error: timeout'')"
proof -
  have l: "0 < length example_vectors" by (simp add: example_vectors_def)
  have r: "example_index_failing 0 (fst (example_vectors ! 0)) = Inl ''timeout''"
    by (simp add: example_index_failing_def)
  have n: "\<forall>j<0. \<not> query_raises example_index_failing example_vectors j" by simp
  have v: "user_vectors_with_interests example_s1 = example_vectors"
    by (simp add: example_s1_def)
  note th = query_error_aborts_collection [OF l r n]
  have p: "perform_selection_approach example_index_failing example_vectors =
      Inl (ClientError ''timeout'')"
    using th by blast
  have e70: "get_recommendations_v70 example_store example_index_failing ''u1'' =
      Inl (HTTPException 500 (''Internal server error: '' @ ''timeout''))"
    using th example_get_user_data by blast
  have a71: "agent_2_node_v71 example_index_failing example_s1 = Inl (ClientError ''timeout'')"
    using th v by blast
  have e71: "get_recommendations_v71 example_store example_index_failing ''u1'' =
      Inl (HTTPException 500 (''Internal server error: '' @ ''timeout''))"
    using th example_agent_1 v by blast
  have l1: "(1::nat) < length example_vectors" by (simp add: example_vectors_def)
  show ?thesis using l1 r p e70 a71 e71 by simp
qed

text \<open>
  The claim as the specification states it fails: the first query of the run below
  raises, the second would have found an advertisement, and the collection as a whole
  fails with the exception of the first query instead of skipping it.
\<close>

theorem query_error_not_skipped_counterexample:
  "example_index_failing 0 (fst (example_vectors ! 0)) = Inl ''timeout'' \<and>
   query_candidates 1 (example_index_failing 1 (fst (example_vectors ! 1))) \<noteq> [] \<and>
   perform_selection_approach example_index_failing example_vectors =
     Inl (ClientError ''timeout'') \<and>
   agent_2_node_v71 example_index_failing example_s1 = Inl (ClientError ''timeout'') \<and>
   get_recommendations_v70 example_store example_index_failing ''u1'' =
     Inl (HTTPException 500 ''Internal server error: timeout'')"
  by (simp add: example_index_failing_def example_vectors_def example_ad_def
      playback_url_def perform_selection_approach_def agent_2_node_v71_def example_s1_def
      get_recommendations_v70_def example_get_user_data [unfolded example_vectors_def])

section \<open>Runs with a low score\<close>

lemma example_low_collect:
  "collect_loop example_index_low 0 example_vectors [] =
     Inr [\<lparr>url = ''https://ads.example/a&autoplay=1&mute=1'', product = ''Bike'',
           score = 1 / 2, vector_idx = 0\<rparr>,
          \<lparr>url = ''https://ads.example/a&autoplay=1&mute=1'', product = ''Bike'',
           score = 1 / 2, vector_idx = 1\<rparr>]"
  by (simp add: example_index_low_def example_vectors_def example_ad_def playback_url_def)

lemma example_low_agent_2: "agent_2_node_v71 example_index_low example_s1 = Inr example_low_s2"
proof -
  have "user_vectors_with_interests example_s1 = example_vectors"
    by (simp add: example_s1_def)
  then show ?thesis
    by (simp add: agent_2_node_v71_def example_low_collect deduplicated_recommendations_def
        sort_reverse_def score_idx_key_def shortlist_def to_recommendation_def
        example_low_s2_def example_low_shortlist_def example_s1_def)
qed

lemma example_low_graph:
  "graph_invoke_v71 example_store example_index_low (initial_state_v71 ''u1'') =
     Inr (agent_3_node_v71 example_low_s2)"
proof -
  have "customer_id example_s1 \<noteq> []" by (simp add: example_s1_def)
  then show ?thesis
    by (simp add: graph_invoke_v71_def example_agent_1 example_low_agent_2)
qed

lemma example_low_agent_2_v64:
  "agent_2_node_v64 None example_index_low example_s1_v64 = example_low_s2_v64"
proof -
  have v: "user_vectors_with_interests example_s1_v64 = example_vectors"
    by (simp add: example_s1_v64_def)
  have sel: "selection_v64
       [\<lparr>url = ''https://ads.example/a&autoplay=1&mute=1'', product = ''Bike'',
         score = 1 / 2, vector_idx = 0\<rparr>,
        \<lparr>url = ''https://ads.example/a&autoplay=1&mute=1'', product = ''Bike'',
         score = 1 / 2, vector_idx = 1\<rparr>] =
     Inr (Some (\<lparr>url = ''https://ads.example/a&autoplay=1&mute=1'', product = ''Bike'',
                 score = 1 / 2, vector_idx = 0\<rparr>, example_low_shortlist))"
    by (simp add: selection_v64_def deduplicated_recommendations_v64_def sort_reverse_def
        shortlist_def to_recommendation_def example_low_shortlist_def)
  have agg: "aggregation_v64 example_index_low (length example_vectors) [1 / 2, 1 / 2] =
      Inr (''https://ads.example/a&autoplay=1&mute=1'', ''Bike'', 1 / 2, example_low_shortlist)"
    by (simp add: aggregation_v64_def example_index_low_def example_ad_def playback_url_def
        sort_reverse_def to_recommendation_def example_low_shortlist_def)
  have u: "user_vector_agg example_s1_v64 = [1 / 2, 1 / 2]"
    "customer_id example_s1_v64 \<noteq> []" "user_vectors example_s1_v64 \<noteq> []"
    by (simp_all add: example_s1_v64_def)
  show ?thesis
    by (simp add: agent_2_node_v64_def agent_2_try_v64_def v example_low_collect sel agg u
        example_low_s2_v64_def)
       (simp add: example_s1_v64_def)
qed


section \<open>Results with \<open>play_ad = False\<close>\<close>

lemma agent_3_node_v71_no_play:
  assumes "\<not> play_ad (agent_3_node_v71 s)"
  shows "ad_url (agent_3_node_v71 s) = DEFAULT_AD_URL \<and>
         product_st (agent_3_node_v71 s) = DEFAULT_PRODUCT \<and>
         similarity_score (agent_3_node_v71 s) = 0 \<and>
         top_recommendations (agent_3_node_v71 s) = [] \<and>
         similarity_score s < SIMILARITY_THRESHOLD"
  using assms by (auto simp: agent_3_node_v71_def split: if_splits)

lemma agent_3_node_v64_no_play:
  assumes "\<not> play_ad (agent_3_node_v64 t)"
  shows "ad_url (agent_3_node_v64 t) = DEFAULT_AD_URL \<and>
         product_st (agent_3_node_v64 t) = DEFAULT_PRODUCT \<and>
         similarity_score (agent_3_node_v64 t) = similarity_score t \<and>
         similarity_score t < SIMILARITY_THRESHOLD"
  using assms by (auto simp: agent_3_node_v64_def Let_def split: if_splits)

lemma agent_3_node_v64_no_play_agg:
  assumes "\<not> play_ad_agg (agent_3_node_v64 t)"
  shows "ad_url_agg (agent_3_node_v64 t) = DEFAULT_AD_URL \<and>
         product_agg (agent_3_node_v64 t) = DEFAULT_PRODUCT \<and>
         similarity_score_agg (agent_3_node_v64 t) = similarity_score_agg t \<and>
         similarity_score_agg t < SIMILARITY_THRESHOLD"
  using assms by (auto simp: agent_3_node_v64_def Let_def split: if_splits)

lemma graph_invoke_v71_Inr:
  assumes "graph_invoke_v71 store index init = Inr r"
  obtains s1 s2 where "agent_1_node_v71 store init = Inr s1"
    "agent_2_node_v71 index s1 = Inr s2" "r = agent_3_node_v71 s2"
proof (cases "agent_1_node_v71 store init")
  case (Inl e)
  then show ?thesis using assms by (simp add: graph_invoke_v71_def)
next
  case (Inr s1)
  have ne: "customer_id s1 \<noteq> []" using agent_1_node_v71_Inr [OF Inr] by blast
  show ?thesis
  proof (cases "agent_2_node_v71 index s1")
    case (Inl e)
    then show ?thesis using assms Inr ne by (simp add: graph_invoke_v71_def)
  next
    case r: (Inr s2)
    then have "r = agent_3_node_v71 s2"
      using assms Inr ne by (simp add: graph_invoke_v71_def)
    then show ?thesis using that Inr r by blast
  qed
qed

text \<open>
  Claim C3, as the code has it. In every completed run of the v7.1 graph, and in every run
  of the v6.4 graph that reaches the threshold validator (the customer identifier is not
  empty after \<open>agent_1\<close>), \<open>play_ad = False\<close> comes with the fallback url and product; the
  score is reset to 0 in v7.1 and is the score below the threshold that \<open>agent_2\<close> found in
  v6.4, for each of its two approaches. A run of v6.4 that ends in the error handler has
  \<open>play_ad = False\<close> with the default-video url, an empty product and score 0.
\<close>

theorem no_play_means_fallback:
  "(graph_invoke_v71 store index init = Inr r \<and> \<not> play_ad r \<longrightarrow>
      ad_url r = DEFAULT_AD_URL \<and> product_st r = DEFAULT_PRODUCT \<and>
      similarity_score r = 0) \<and>
   (customer_id s1 \<noteq> [] \<and> \<not> play_ad (graph_after_agent_1_v64 connect index2 s1) \<longrightarrow>
      ad_url (graph_after_agent_1_v64 connect index2 s1) = DEFAULT_AD_URL \<and>
      product_st (graph_after_agent_1_v64 connect index2 s1) = DEFAULT_PRODUCT \<and>
      similarity_score (graph_after_agent_1_v64 connect index2 s1) =
        similarity_score (agent_2_node_v64 connect index2 s1) \<and>
      similarity_score (graph_after_agent_1_v64 connect index2 s1) < SIMILARITY_THRESHOLD) \<and>
   (customer_id s1 \<noteq> [] \<and> \<not> play_ad_agg (graph_after_agent_1_v64 connect index2 s1) \<longrightarrow>
      ad_url_agg (graph_after_agent_1_v64 connect index2 s1) = DEFAULT_AD_URL \<and>
      product_agg (graph_after_agent_1_v64 connect index2 s1) = DEFAULT_PRODUCT \<and>
      similarity_score_agg (graph_after_agent_1_v64 connect index2 s1) =
        similarity_score_agg (agent_2_node_v64 connect index2 s1) \<and>
      similarity_score_agg (graph_after_agent_1_v64 connect index2 s1) < SIMILARITY_THRESHOLD) \<and>
   (customer_id s1 = [] \<longrightarrow>
      play_ad (graph_after_agent_1_v64 connect index2 s1) = False \<and>
      ad_url (graph_after_agent_1_v64 connect index2 s1) = DEFAULT_VIDEO_URL \<and>
      product_st (graph_after_agent_1_v64 connect index2 s1) = [] \<and>
      similarity_score (graph_after_agent_1_v64 connect index2 s1) = 0)"
proof (intro conjI impI)
  assume a: "graph_invoke_v71 store index init = Inr r \<and> \<not> play_ad r"
  then obtain s2 where r: "r = agent_3_node_v71 s2"
    using graph_invoke_v71_Inr [of store index init r] by blast
  have "\<not> play_ad (agent_3_node_v71 s2)" using a r by simp
  from agent_3_node_v71_no_play [OF this]
  show "ad_url r = DEFAULT_AD_URL" "product_st r = DEFAULT_PRODUCT" "similarity_score r = 0"
    using r by simp_all
next
  let ?g = "graph_after_agent_1_v64 connect index2 s1"
  let ?s2 = "agent_2_node_v64 connect index2 s1"
  assume a: "customer_id s1 \<noteq> [] \<and> \<not> play_ad ?g"
  then have g: "?g = agent_3_node_v64 ?s2" by (simp add: graph_after_agent_1_v64_def)
  then have "\<not> play_ad (agent_3_node_v64 ?s2)" using a by simp
  from agent_3_node_v64_no_play [OF this]
  show "ad_url ?g = DEFAULT_AD_URL" "product_st ?g = DEFAULT_PRODUCT"
    "similarity_score ?g = similarity_score ?s2" "similarity_score ?g < SIMILARITY_THRESHOLD"
    using g by simp_all
next
  let ?g = "graph_after_agent_1_v64 connect index2 s1"
  let ?s2 = "agent_2_node_v64 connect index2 s1"
  assume a: "customer_id s1 \<noteq> [] \<and> \<not> play_ad_agg ?g"
  then have g: "?g = agent_3_node_v64 ?s2" by (simp add: graph_after_agent_1_v64_def)
  then have "\<not> play_ad_agg (agent_3_node_v64 ?s2)" using a by simp
  from agent_3_node_v64_no_play_agg [OF this]
  show "ad_url_agg ?g = DEFAULT_AD_URL" "product_agg ?g = DEFAULT_PRODUCT"
    "similarity_score_agg ?g = similarity_score_agg ?s2"
    "similarity_score_agg ?g < SIMILARITY_THRESHOLD"
    using g by simp_all
next
  let ?g = "graph_after_agent_1_v64 connect index2 s1"
  assume "customer_id s1 = []"
  then have g: "?g = error_handler_node_v64 s1" by (simp add: graph_after_agent_1_v64_def)
  show "play_ad ?g = False" "ad_url ?g = DEFAULT_VIDEO_URL" "product_st ?g = []"
    "similarity_score ?g = 0"
    unfolding g by (simp_all add: error_handler_node_v64_def)
qed

theorem no_play_means_fallback_witness:
  "graph_invoke_v71 example_store example_index_low (initial_state_v71 ''u1'') =
     Inr (agent_3_node_v71 example_low_s2) \<and>
   \<not> play_ad (agent_3_node_v71 example_low_s2) \<and>
   ad_url (agent_3_node_v71 example_low_s2) = DEFAULT_AD_URL \<and>
   product_st (agent_3_node_v71 example_low_s2) = DEFAULT_PRODUCT \<and>
   similarity_score (agent_3_node_v71 example_low_s2) = 0 \<and>
   customer_id example_s1_v64 \<noteq> [] \<and>
   \<not> play_ad (graph_after_agent_1_v64 None example_index_low example_s1_v64) \<and>
   \<not> play_ad_agg (graph_after_agent_1_v64 None example_index_low example_s1_v64) \<and>
   ad_url (graph_after_agent_1_v64 None example_index_low example_s1_v64) = DEFAULT_AD_URL \<and>
   product_st (graph_after_agent_1_v64 None example_index_low example_s1_v64) =
     DEFAULT_PRODUCT \<and>
   similarity_score (graph_after_agent_1_v64 None example_index_low example_s1_v64) = 1 / 2 \<and>
   ad_url_agg (graph_after_agent_1_v64 None example_index_low example_s1_v64) =
     DEFAULT_AD_URL \<and>
   similarity_score_agg (graph_after_agent_1_v64 None example_index_low example_s1_v64) =
     1 / 2 \<and>
   customer_id (agent_1_invalid_choice_v64 initial_state_v64) = [] \<and>
   ad_url (graph_after_agent_1_v64 None example_index
            (agent_1_invalid_choice_v64 initial_state_v64)) = DEFAULT_VIDEO_URL"
proof -
  let ?r = "agent_3_node_v71 example_low_s2"
  let ?g = "graph_after_agent_1_v64 None example_index_low example_s1_v64"
  let ?e = "agent_1_invalid_choice_v64 initial_state_v64"
  have np: "\<not> play_ad ?r"
    by (simp add: agent_3_node_v71_def example_low_s2_def SIMILARITY_THRESHOLD_def)
  have c: "customer_id example_s1_v64 \<noteq> []" by (simp add: example_s1_v64_def)
  have g: "?g = agent_3_node_v64 example_low_s2_v64"
    using c by (simp add: graph_after_agent_1_v64_def example_low_agent_2_v64)
  have sc: "similarity_score example_low_s2_v64 = 1 / 2"
    "similarity_score_agg example_low_s2_v64 = 1 / 2"
    by (simp_all add: example_low_s2_v64_def)
  have np64: "\<not> play_ad ?g" "\<not> play_ad_agg ?g"
    unfolding g
    by (simp_all add: agent_3_node_v64_def Let_def sc SIMILARITY_THRESHOLD_def)
  have ce: "customer_id ?e = []" by (simp add: agent_1_invalid_choice_v64_def)
  note low = no_play_means_fallback [of example_store example_index_low
      "initial_state_v71 ''u1''" ?r example_s1_v64 None example_index_low]
  note err = no_play_means_fallback [of example_store example_index_low
      "initial_state_v71 ''u1''" ?r ?e None example_index]
  have 1: "ad_url ?r = DEFAULT_AD_URL \<and> product_st ?r = DEFAULT_PRODUCT \<and>
      similarity_score ?r = 0"
    using low example_low_graph np by blast
  have 2: "ad_url ?g = DEFAULT_AD_URL \<and> product_st ?g = DEFAULT_PRODUCT \<and>
      similarity_score ?g = similarity_score (agent_2_node_v64 None example_index_low
        example_s1_v64)"
    using low c np64 by blast
  have 3: "ad_url_agg ?g = DEFAULT_AD_URL \<and>
      similarity_score_agg ?g = similarity_score_agg (agent_2_node_v64 None example_index_low
        example_s1_v64)"
    using low c np64 by blast
  have 4: "ad_url (graph_after_agent_1_v64 None example_index ?e) = DEFAULT_VIDEO_URL"
    using err ce by blast
  show ?thesis
    using example_low_graph np 1 c np64 2 3 ce 4
    by (simp add: example_low_agent_2_v64 sc)
qed

text \<open>
  The claim as the specification states it fails on the run of v6.4 in which the mode
  typed at the prompt is invalid: the run completes in the error handler with
  \<open>play_ad = False\<close>, and neither the url nor the product is the fallback of the validator.
\<close>

theorem error_handler_result_counterexample:
  "play_ad (graph_after_agent_1_v64 None example_index
      (agent_1_invalid_choice_v64 initial_state_v64)) = False \<and>
   ad_url (graph_after_agent_1_v64 None example_index
      (agent_1_invalid_choice_v64 initial_state_v64)) = DEFAULT_VIDEO_URL \<and>
   ad_url (graph_after_agent_1_v64 None example_index
      (agent_1_invalid_choice_v64 initial_state_v64)) \<noteq> DEFAULT_AD_URL \<and>
   product_st (graph_after_agent_1_v64 None example_index
      (agent_1_invalid_choice_v64 initial_state_v64)) = [] \<and>
   product_st (graph_after_agent_1_v64 None example_index
      (agent_1_invalid_choice_v64 initial_state_v64)) \<noteq> DEFAULT_PRODUCT"
  by (simp add: graph_after_agent_1_v64_def agent_1_invalid_choice_v64_def
      error_handler_node_v64_def DEFAULT_VIDEO_URL_def DEFAULT_AD_URL_def DEFAULT_PRODUCT_def)

section \<open>Status codes of the endpoints\<close>

text \<open>The endpoint of v7.0 answers 404 without interest records and without any
  advertisement, 400 without a usable vector, and 500 when a client call raises.\<close>

lemma get_recommendations_v70_no_entries:
  assumes "store user_id = Inr []"
  shows "get_recommendations_v70 store index user_id =
     Inl (HTTPException 404 (''No entries found for UserId: '' @ user_id))"
  using assms by (simp add: get_recommendations_v70_def get_user_data_def)

lemma get_recommendations_v70_no_vector:
  assumes "store user_id = Inr entries" "entries \<noteq> []" "vectors_with_interests entries = []"
  shows "get_recommendations_v70 store index user_id =
     Inl (HTTPException 400 (''No valid $vector found for UserId: '' @ user_id))"
  using assms by (simp add: get_recommendations_v70_def get_user_data_def)

lemma get_recommendations_v70_no_ads:
  assumes "get_user_data store user_id = Inr (customer, interests, vs)"
    "\<forall>i<length vs. \<not> query_raises index vs i" "merged_pool index vs = []"
  shows "get_recommendations_v70 store index user_id = Inl (HTTPException 404 NO_ADS_FOUND)"
  using assms collect_loop_merged_pool [of vs index]
  by (simp add: get_recommendations_v70_def perform_selection_approach_cases)

lemma get_recommendations_v70_store_raises:
  assumes "store user_id = Inl m"
  shows "get_recommendations_v70 store index user_id =
     Inl (HTTPException 500 (''Internal server error: '' @ m))"
  using assms by (simp add: get_recommendations_v70_def get_user_data_def)

text \<open>In v7.1 the nodes raise \<open>ValueError\<close> in the same situations, which the endpoint
  turns into status 500.\<close>

lemma get_recommendations_v71_no_entries:
  assumes "user_id \<noteq> []" "store user_id = Inr []"
  shows "get_recommendations_v71 store index user_id =
     Inl (HTTPException 500
       (''Internal server error: '' @ ''No entries found for UserId: '' @ user_id))"
  using assms
  by (simp add: get_recommendations_v71_graph agent_1_node_v71_def initial_state_v71_def)

lemma get_recommendations_v71_no_vector:
  assumes "user_id \<noteq> []" "store user_id = Inr entries" "entries \<noteq> []"
    "vectors_with_interests entries = []"
  shows "get_recommendations_v71 store index user_id =
     Inl (HTTPException 500
       (''Internal server error: '' @ ''No valid $vector found for UserId: '' @ user_id))"
  using assms
  by (simp add: get_recommendations_v71_graph agent_1_node_v71_def initial_state_v71_def)

lemma get_recommendations_v71_no_ads:
  assumes "agent_1_node_v71 store (initial_state_v71 user_id) = Inr s1"
    "\<forall>i<length (user_vectors_with_interests s1).
       \<not> query_raises index (user_vectors_with_interests s1) i"
    "merged_pool index (user_vectors_with_interests s1) = []"
  shows "get_recommendations_v71 store index user_id =
     Inl (HTTPException 500 (''Internal server error: '' @ NO_ADS_FOUND))"
proof -
  have "collect_loop index 0 (user_vectors_with_interests s1) [] = Inr []"
    using collect_loop_merged_pool [OF assms(2)] assms(3) by simp
  then have "agent_2_node_v71 index s1 = Inl (ValueError NO_ADS_FOUND)"
    by (simp add: agent_2_node_v71_not_found)
  then show ?thesis using assms(1) by (simp add: get_recommendations_v71_graph)
qed

text \<open>A score below the threshold empties the shortlist in \<open>agent_3_node\<close>, and the endpoint
  of v7.1 answers an empty shortlist with status 404.\<close>

lemma get_recommendations_v71_low_score:
  assumes "agent_1_node_v71 store (initial_state_v71 user_id) = Inr s1"
    "agent_2_node_v71 index s1 = Inr s2" "similarity_score s2 < SIMILARITY_THRESHOLD"
  shows "get_recommendations_v71 store index user_id =
     Inl (HTTPException 404 ''Failed to generate recommendations'')"
  using assms by (simp add: get_recommendations_v71_graph agent_3_node_v71_def)

text \<open>
  Claim C2, on the run in which the best candidate of customer \<open>u1\<close> scores 0.5. The graph
  of v7.1 completes with \<open>play_ad = False\<close> and the fallback url and product, and the
  endpoint of v7.1 then answers this run with status 404.
\<close>

theorem low_score_run_answers_404:
  "agent_2_node_v71 example_index_low example_s1 = Inr example_low_s2 \<and>
   similarity_score example_low_s2 = 1 / 2 \<and>
   similarity_score example_low_s2 < SIMILARITY_THRESHOLD \<and>
   graph_invoke_v71 example_store example_index_low (initial_state_v71 ''u1'') =
     Inr (agent_3_node_v71 example_low_s2) \<and>
   play_ad (agent_3_node_v71 example_low_s2) = False \<and>
   ad_url (agent_3_node_v71 example_low_s2) = DEFAULT_AD_URL \<and>
   product_st (agent_3_node_v71 example_low_s2) = DEFAULT_PRODUCT \<and>
   top_recommendations (agent_3_node_v71 example_low_s2) = [] \<and>
   get_recommendations_v71 example_store example_index_low ''u1'' =
     Inl (HTTPException 404 ''Failed to generate recommendations'')"
proof -
  have s: "similarity_score example_low_s2 = 1 / 2" by (simp add: example_low_s2_def)
  then have l: "similarity_score example_low_s2 < SIMILARITY_THRESHOLD"
    by (simp add: SIMILARITY_THRESHOLD_def)
  have a3: "play_ad (agent_3_node_v71 example_low_s2) = False \<and>
      ad_url (agent_3_node_v71 example_low_s2) = DEFAULT_AD_URL \<and>
      product_st (agent_3_node_v71 example_low_s2) = DEFAULT_PRODUCT \<and>
      top_recommendations (agent_3_node_v71 example_low_s2) = []"
    using l by (simp add: agent_3_node_v71_def)
  show ?thesis
    using example_low_agent_2 s l example_low_graph a3
      get_recommendations_v71_low_score [of example_store "''u1''" example_s1 example_index_low
        example_low_s2, OF example_agent_1 example_low_agent_2 l]
    by simp
qed

text \<open>
  Claim C10, on three requests: a customer without interest records, a customer whose only
  record carries no vector, and a customer for whom no advertisement is found. The
  endpoint of v7.0 answers 404, 400 and 404; the endpoint of v7.1 answers 500 each time.
\<close>

theorem status_codes_of_both_services:
  "example_store ''nobody'' = Inr [] \<and>
   get_recommendations_v70 example_store example_index ''nobody'' =
     Inl (HTTPException 404 ''No entries found for UserId: nobody'') \<and>
   get_recommendations_v71 example_store example_index ''nobody'' =
     Inl (HTTPException 500 ''Internal server error: No entries found for UserId: nobody'') \<and>
   vectors_with_interests (projr (example_store ''u2'')) = [] \<and>
   get_recommendations_v70 example_store example_index ''u2'' =
     Inl (HTTPException 400 ''No valid $vector found for UserId: u2'') \<and>
   get_recommendations_v71 example_store example_index ''u2'' =
     Inl (HTTPException 500 ''Internal server error: No valid $vector found for UserId: u2'') \<and>
   merged_pool example_index_empty example_vectors = [] \<and>
   get_recommendations_v70 example_store example_index_empty ''u1'' =
     Inl (HTTPException 404 NO_ADS_FOUND) \<and>
   get_recommendations_v71 example_store example_index_empty ''u1'' =
     Inl (HTTPException 500 (''Internal server error: '' @ NO_ADS_FOUND))"
proof -
  have n: "example_store ''nobody'' = Inr []" by (simp add: example_store_def)
  have u2: "example_store ''u2'' =
      Inr [\<lparr>InterestName = Some ''Chess'', InterestDescription = None, entry_vector = None\<rparr>]"
    by (simp add: example_store_def)
  have v2: "vectors_with_interests
      [\<lparr>InterestName = Some ''Chess'', InterestDescription = None, entry_vector = None\<rparr>] = []"
    by (simp add: vectors_with_interests_def vector_of_def)
  have r: "\<forall>i<length example_vectors. \<not> query_raises example_index_empty example_vectors i"
    by (simp add: query_raises_def example_index_empty_def)
  have m: "merged_pool example_index_empty example_vectors = []"
    by (simp add: merged_pool_def example_index_empty_def example_vectors_def)
  have v: "user_vectors_with_interests example_s1 = example_vectors"
    by (simp add: example_s1_def)
  have 1: "get_recommendations_v70 example_store example_index ''nobody'' =
      Inl (HTTPException 404 ''No entries found for UserId: nobody'')"
    using get_recommendations_v70_no_entries [of example_store "''nobody''" example_index] n by simp
  have 2: "get_recommendations_v71 example_store example_index ''nobody'' =
      Inl (HTTPException 500 ''Internal server error: No entries found for UserId: nobody'')"
    using get_recommendations_v71_no_entries [of "''nobody''" example_store example_index] n by simp
  have 3: "get_recommendations_v70 example_store example_index ''u2'' =
      Inl (HTTPException 400 ''No valid $vector found for UserId: u2'')"
    using get_recommendations_v70_no_vector [of example_store "''u2''" _ example_index] u2 v2 by simp
  have 4: "get_recommendations_v71 example_store example_index ''u2'' =
      Inl (HTTPException 500 ''Internal server error: No valid $vector found for UserId: u2'')"
    using get_recommendations_v71_no_vector [of "''u2''" example_store _ example_index] u2 v2 by simp
  have 5: "get_recommendations_v70 example_store example_index_empty ''u1'' =
      Inl (HTTPException 404 NO_ADS_FOUND)"
    using get_recommendations_v70_no_ads [of example_store "''u1''" _ _ example_vectors
        example_index_empty] example_get_user_data r m by simp
  have 6: "get_recommendations_v71 example_store example_index_empty ''u1'' =
      Inl (HTTPException 500 (''Internal server error: '' @ NO_ADS_FOUND))"
    using get_recommendations_v71_no_ads [of example_store "''u1''" example_s1 example_index_empty]
      example_agent_1 r m v by simp
  show ?thesis using n u2 v2 m 1 2 3 4 5 6 by simp
qed

end
